theory Spec2Isabelle
  imports Main
begin

section \<open>Python string and dictionary primitives\<close>

text \<open>
  The token normalizer of \<^verbatim>\<open>scripts/megameklab-conversion/enum_mappings.py\<close> works on
  Python strings and literal dictionaries. A string is modelled as a \<^typ>\<open>string\<close>, one
  \<^typ>\<open>char\<close> for each character: the characters are the code points U+0000 to U+00FF
  (ASCII and the Latin-1 supplement), and the whitespace class, the digit class and the
  case conversions below are those of Python's \<^verbatim>\<open>str\<close> on these code points.
\<close>

datatype py_error = KeyError string

definition ascii_lowercase :: string where
  "ascii_lowercase = ''abcdefghijklmnopqrstuvwxyz''"

definition ascii_uppercase :: string where
  "ascii_uppercase = ''ABCDEFGHIJKLMNOPQRSTUVWXYZ''"

text \<open>
  The lower-case letters U+00E0 to U+00FE of the Latin-1 supplement (the division sign
  U+00F7 is no letter) and their capitals U+00C0 to U+00DE, in the same order.
\<close>

definition latin1_lowercase :: string where
  "latin1_lowercase =
    [CHR 0xE0, CHR 0xE1, CHR 0xE2, CHR 0xE3, CHR 0xE4, CHR 0xE5, CHR 0xE6, CHR 0xE7,
     CHR 0xE8, CHR 0xE9, CHR 0xEA, CHR 0xEB, CHR 0xEC, CHR 0xED, CHR 0xEE,
     CHR 0xEF, CHR 0xF0, CHR 0xF1, CHR 0xF2, CHR 0xF3, CHR 0xF4, CHR 0xF5,
     CHR 0xF6, CHR 0xF8, CHR 0xF9, CHR 0xFA, CHR 0xFB, CHR 0xFC, CHR 0xFD,
     CHR 0xFE]"

definition latin1_uppercase :: string where
  "latin1_uppercase =
    [CHR 0xC0, CHR 0xC1, CHR 0xC2, CHR 0xC3, CHR 0xC4, CHR 0xC5, CHR 0xC6, CHR 0xC7,
     CHR 0xC8, CHR 0xC9, CHR 0xCA, CHR 0xCB, CHR 0xCC, CHR 0xCD, CHR 0xCE,
     CHR 0xCF, CHR 0xD0, CHR 0xD1, CHR 0xD2, CHR 0xD3, CHR 0xD4, CHR 0xD5,
     CHR 0xD6, CHR 0xD8, CHR 0xD9, CHR 0xDA, CHR 0xDB, CHR 0xDC, CHR 0xDD,
     CHR 0xDE]"

definition isspace :: "char \<Rightarrow> bool" where
  \<comment> \<open>tab, line feed, vertical tab, form feed, carriage return, the four separators
      0x1C to 0x1F, the space, the next-line control U+0085 and the no-break space U+00A0\<close>
  "isspace c =
     (let n = (of_char c :: nat)
      in (9 \<le> n \<and> n \<le> 13) \<or> (28 \<le> n \<and> n \<le> 32) \<or> n = 133 \<or> n = 160)"

definition isdigit :: "char \<Rightarrow> bool" where
  \<comment> \<open>the ten decimal digits and the superscripts two, three and one\<close>
  "isdigit c = (c \<in> set ''0123456789'' \<or> c \<in> set [CHR 0xB2, CHR 0xB3, CHR 0xB9])"

definition iscased :: "char \<Rightarrow> bool" where
  \<comment> \<open>the letters with a case, the ordinal indicators U+00AA and U+00BA, the micro
      sign, the sharp s and the y with diaeresis\<close>
  "iscased c =
     (c \<in> set (ascii_lowercase @ ascii_uppercase @ latin1_lowercase @ latin1_uppercase) \<or>
      c \<in> set [CHR 0xAA, CHR 0xB5, CHR 0xBA, CHR 0xDF, CHR 0xFF])"

definition upper_table :: "(char \<times> char) list" where
  "upper_table = zip (ascii_lowercase @ latin1_lowercase) (ascii_uppercase @ latin1_uppercase)"

definition lower_table :: "(char \<times> char) list" where
  "lower_table = zip (ascii_uppercase @ latin1_uppercase) (ascii_lowercase @ latin1_lowercase)"

text \<open>
  \<^verbatim>\<open>str.upper()\<close> maps the sharp s U+00DF to the two letters SS, so the upper case of a
  character is a string. The capitals of the micro sign U+00B5 and of the y with diaeresis
  U+00FF are U+039C and U+0178, which are no values of \<^typ>\<open>char\<close>: \<open>upper_char\<close> keeps the two
  characters. No substring test of the mapping functions can tell the difference, since
  every pattern is ASCII; a statement about the upper-cased string itself is made for
  the strings that satisfy \<open>capitals_in_range\<close>.
\<close>

definition upper_char :: "char \<Rightarrow> string" where
  "upper_char c =
     (if c = CHR 0xDF then ''SS''
      else case map_of upper_table c of None \<Rightarrow> [c] | Some u \<Rightarrow> [u])"

definition capitals_in_range :: "string \<Rightarrow> bool" where
  "capitals_in_range s = (CHR 0xB5 \<notin> set s \<and> CHR 0xFF \<notin> set s)"

definition lower_char :: "char \<Rightarrow> char" where
  "lower_char c = (case map_of lower_table c of None \<Rightarrow> c | Some l \<Rightarrow> l)"

definition upper :: "string \<Rightarrow> string" where
  "upper s = concat (map upper_char s)"

definition lower :: "string \<Rightarrow> string" where
  "lower s = map lower_char s"

text \<open>
  \<^verbatim>\<open>str.title()\<close>: a character is title-cased when the character before it is not
  cased, and lower-cased otherwise. The title case of a character is its upper case,
  but for the sharp s, which becomes Ss.
\<close>

definition title_char :: "char \<Rightarrow> string" where
  "title_char c = (if c = CHR 0xDF then ''Ss'' else upper_char c)"

fun title_from :: "bool \<Rightarrow> string \<Rightarrow> string" where
  "title_from prev [] = []"
| "title_from prev (c # cs) =
     (if prev then [lower_char c] else title_char c) @ title_from (iscased c) cs"

definition title :: "string \<Rightarrow> string" where
  "title s = title_from False s"

text \<open>\<^verbatim>\<open>s.strip(chars)\<close> and \<^verbatim>\<open>s.strip()\<close>, which removes surrounding whitespace.\<close>

definition strip_chars :: "string \<Rightarrow> string \<Rightarrow> string" where
  "strip_chars chars s =
     rev (dropWhile (\<lambda>c. c \<in> set chars) (rev (dropWhile (\<lambda>c. c \<in> set chars) s)))"

definition strip :: "string \<Rightarrow> string" where
  "strip s = rev (dropWhile isspace (rev (dropWhile isspace s)))"

text \<open>\<^verbatim>\<open>s.startswith(p)\<close>, and \<^verbatim>\<open>sub in s\<close> as \<open>contains sub s\<close>.\<close>

fun startswith :: "string \<Rightarrow> string \<Rightarrow> bool" where
  "startswith s [] = True"
| "startswith [] (p # ps) = False"
| "startswith (c # cs) (p # ps) = (c = p \<and> startswith cs ps)"

fun contains :: "string \<Rightarrow> string \<Rightarrow> bool" where
  "contains sub [] = (sub = [])"
| "contains sub (c # cs) = (startswith (c # cs) sub \<or> contains sub cs)"

text \<open>
  \<^verbatim>\<open>s.replace(old, new)\<close>: the occurrences of \<open>old\<close> are replaced from left to right
  and do not overlap; an empty \<open>old\<close> matches before every character and at the end.
\<close>

function replace :: "string \<Rightarrow> string \<Rightarrow> string \<Rightarrow> string" where
  "replace old new [] = (if old = [] then new else [])"
| "replace old new (c # cs) =
     (if old = [] then new @ c # replace old new cs
      else if startswith (c # cs) old then new @ replace old new (drop (length old) (c # cs))
      else c # replace old new cs)"
  by pat_completeness auto
termination
  by (relation "measure (\<lambda>(old, new, s). length s)") auto

text \<open>
  A dictionary literal is the list of its entries in source order. \<^verbatim>\<open>k in d\<close> is
  \<open>dict_contains\<close>, \<^verbatim>\<open>d.get(k, default)\<close> is \<open>dict_get\<close>, and the subscript \<^verbatim>\<open>d[k]\<close>,
  which raises \<^verbatim>\<open>KeyError\<close> on a missing key, is \<open>dict_getitem\<close>.
\<close>

type_synonym py_dict = "(string \<times> string) list"

definition dict_contains :: "py_dict \<Rightarrow> string \<Rightarrow> bool" where
  "dict_contains d k = (map_of d k \<noteq> None)"

definition dict_get :: "py_dict \<Rightarrow> string \<Rightarrow> string \<Rightarrow> string" where
  "dict_get d k dflt = (case map_of d k of None \<Rightarrow> dflt | Some v \<Rightarrow> v)"

definition dict_getitem :: "py_dict \<Rightarrow> string \<Rightarrow> py_error + string" where
  "dict_getitem d k = (case map_of d k of None \<Rightarrow> Inl (KeyError k) | Some v \<Rightarrow> Inr v)"


section \<open>Alias tables and mapping functions\<close>

subsection \<open>Tech base\<close>

definition TECH_BASE_MAP :: "(string \<times> string) list" where
  "TECH_BASE_MAP = [
    (''Inner Sphere'', ''INNER_SPHERE''),
    (''IS'', ''INNER_SPHERE''),
    (''IS Level 1'', ''INNER_SPHERE''),
    (''IS Level 2'', ''INNER_SPHERE''),
    (''IS Level 3'', ''INNER_SPHERE''),
    (''IS Level 4'', ''INNER_SPHERE''),
    (''Clan'', ''CLAN''),
    (''CL'', ''CLAN''),
    (''Clan Level 2'', ''CLAN''),
    (''Clan Level 3'', ''CLAN''),
    (''Mixed'', ''MIXED''),
    (''Mixed (IS Chassis)'', ''MIXED''),
    (''Mixed (Clan Chassis)'', ''MIXED''),
    (''Both'', ''BOTH''),
    (''0'', ''INNER_SPHERE''),
    (''1'', ''CLAN''),
    (''2'', ''MIXED'')]"

definition map_tech_base :: "string \<Rightarrow> py_error + string" where
  "map_tech_base raw =
     (let clean = strip raw
      in Inr (dict_get TECH_BASE_MAP clean
                (dict_get TECH_BASE_MAP (title clean) ''INNER_SPHERE'')))"

subsection \<open>Rules level\<close>

definition RULES_LEVEL_MAP :: "(string \<times> string) list" where
  "RULES_LEVEL_MAP = [
    (''0'', ''INTRODUCTORY''),
    (''1'', ''STANDARD''),
    (''2'', ''ADVANCED''),
    (''3'', ''EXPERIMENTAL''),
    (''4'', ''UNOFFICIAL''),
    (''Introductory'', ''INTRODUCTORY''),
    (''Standard'', ''STANDARD''),
    (''Advanced'', ''ADVANCED''),
    (''Experimental'', ''EXPERIMENTAL''),
    (''Unofficial'', ''UNOFFICIAL''),
    (''IS Level 1'', ''INTRODUCTORY''),
    (''IS Level 2'', ''STANDARD''),
    (''IS Level 3'', ''ADVANCED''),
    (''IS Level 4'', ''EXPERIMENTAL''),
    (''Clan Level 2'', ''STANDARD''),
    (''Clan Level 3'', ''ADVANCED'')]"

text \<open>
  The loop of \<^verbatim>\<open>map_rules_level\<close> over the characters of the trimmed token: it returns
  at the first digit, and falls out of the loop to the default when there is none.
\<close>

fun rules_level_of_first_digit :: "string \<Rightarrow> string" where
  "rules_level_of_first_digit [] = ''STANDARD''"
| "rules_level_of_first_digit (c # cs) =
     (if isdigit c then dict_get RULES_LEVEL_MAP [c] ''STANDARD''
      else rules_level_of_first_digit cs)"

definition map_rules_level :: "string \<Rightarrow> py_error + string" where
  "map_rules_level raw =
     (let clean = strip raw
      in if dict_contains RULES_LEVEL_MAP clean then dict_getitem RULES_LEVEL_MAP clean
         else Inr (rules_level_of_first_digit clean))"

subsection \<open>Engine type\<close>

definition ENGINE_TYPE_MAP :: "(string \<times> string) list" where
  "ENGINE_TYPE_MAP = [
    (''Fusion Engine'', ''FUSION''),
    (''Fusion Engine(IS)'', ''FUSION''),
    (''Fusion Engine (IS)'', ''FUSION''),
    (''Fusion'', ''FUSION''),
    (''Standard Fusion'', ''FUSION''),
    (''XL Engine'', ''XL''),
    (''XL Engine(IS)'', ''XL''),
    (''XL Engine (IS)'', ''XL''),
    (''XL Fusion Engine'', ''XL''),
    (''Extra-Light Engine'', ''XL''),
    (''XL Engine(Clan)'', ''CLAN_XL''),
    (''XL Engine (Clan)'', ''CLAN_XL''),
    (''Clan XL Engine'', ''CLAN_XL''),
    (''Light Engine'', ''LIGHT''),
    (''Light Engine(IS)'', ''LIGHT''),
    (''Light Fusion Engine'', ''LIGHT''),
    (''Compact Engine'', ''COMPACT''),
    (''Compact Fusion Engine'', ''COMPACT''),
    (''XXL Engine'', ''XXL''),
    (''XXL Engine(IS)'', ''XXL''),
    (''XXL Engine(Clan)'', ''CLAN_XXL''),
    (''ICE Engine'', ''ICE''),
    (''ICE'', ''ICE''),
    (''Internal Combustion Engine'', ''ICE''),
    (''Fuel Cell Engine'', ''FUEL_CELL''),
    (''Fuel Cell'', ''FUEL_CELL''),
    (''Fuel-Cell Engine'', ''FUEL_CELL''),
    (''Fission Engine'', ''FISSION''),
    (''Fission'', ''FISSION''),
    (''0'', ''FUSION''),
    (''1'', ''XL''),
    (''2'', ''LIGHT''),
    (''3'', ''COMPACT''),
    (''4'', ''CLAN_XL''),
    (''5'', ''XXL'')]"

definition map_engine_type :: "string \<Rightarrow> py_error + string" where
  "map_engine_type raw =
     (let clean = strip raw
      in if dict_contains ENGINE_TYPE_MAP clean then dict_getitem ENGINE_TYPE_MAP clean
         else let up = upper clean
           in if contains ''XXL'' up then Inr ''XXL''
              else if contains ''XL'' up \<and> contains ''CLAN'' up then Inr ''CLAN_XL''
              else if contains ''XL'' up then Inr ''XL''
              else if contains ''LIGHT'' up then Inr ''LIGHT''
              else if contains ''COMPACT'' up then Inr ''COMPACT''
              else if contains ''ICE'' up \<or> contains ''COMBUSTION'' up then Inr ''ICE''
              else if contains ''FUEL'' up \<or> contains ''CELL'' up then Inr ''FUEL_CELL''
              else if contains ''FISSION'' up then Inr ''FISSION''
              else Inr ''FUSION'')"

subsection \<open>Gyro type\<close>

definition GYRO_TYPE_MAP :: "(string \<times> string) list" where
  "GYRO_TYPE_MAP = [
    (''Standard Gyro'', ''STANDARD''),
    (''Standard'', ''STANDARD''),
    (''XL Gyro'', ''XL''),
    (''Extra-Light Gyro'', ''XL''),
    (''Compact Gyro'', ''COMPACT''),
    (''Heavy Duty Gyro'', ''HEAVY_DUTY''),
    (''Heavy-Duty Gyro'', ''HEAVY_DUTY''),
    (''Superheavy Gyro'', ''SUPERHEAVY''),
    (''Super Heavy Gyro'', ''SUPERHEAVY''),
    (''None'', ''NONE''),
    (''0'', ''STANDARD''),
    (''1'', ''XL''),
    (''2'', ''COMPACT''),
    (''3'', ''HEAVY_DUTY''),
    (''4'', ''SUPERHEAVY'')]"

definition map_gyro_type :: "string \<Rightarrow> py_error + string" where
  "map_gyro_type raw =
     (let clean = strip raw
      in if dict_contains GYRO_TYPE_MAP clean then dict_getitem GYRO_TYPE_MAP clean
         else let up = upper clean
           in if contains ''SUPERHEAVY'' up \<or> contains ''SUPER HEAVY'' up then Inr ''SUPERHEAVY''
              else if contains ''XL'' up \<or> contains ''EXTRA'' up then Inr ''XL''
              else if contains ''COMPACT'' up then Inr ''COMPACT''
              else if contains ''HEAVY'' up then Inr ''HEAVY_DUTY''
              else Inr ''STANDARD'')"

subsection \<open>Cockpit type\<close>

definition COCKPIT_TYPE_MAP :: "(string \<times> string) list" where
  "COCKPIT_TYPE_MAP = [
    (''Standard Cockpit'', ''STANDARD''),
    (''Standard'', ''STANDARD''),
    (''Small Cockpit'', ''SMALL''),
    (''Small'', ''SMALL''),
    (''Command Console'', ''COMMAND_CONSOLE''),
    (''Torso-Mounted Cockpit'', ''TORSO_MOUNTED''),
    (''Torso Cockpit'', ''TORSO_MOUNTED''),
    (''Primitive Cockpit'', ''PRIMITIVE''),
    (''Primitive'', ''PRIMITIVE''),
    (''Industrial Cockpit'', ''INDUSTRIAL''),
    (''Industrial'', ''INDUSTRIAL''),
    (''Primitive Industrial Cockpit'', ''PRIMITIVE_INDUSTRIAL''),
    (''Primitive Industrial'', ''PRIMITIVE_INDUSTRIAL''),
    (''Superheavy Industrial Cockpit'', ''SUPERHEAVY_INDUSTRIAL''),
    (''Tripod Industrial Cockpit'', ''TRIPOD_INDUSTRIAL''),
    (''Superheavy Tripod Industrial Cockpit'', ''SUPERHEAVY_TRIPOD_INDUSTRIAL''),
    (''Superheavy Cockpit'', ''SUPERHEAVY''),
    (''Superheavy Tripod Cockpit'', ''SUPERHEAVY_TRIPOD''),
    (''Interface Cockpit'', ''INTERFACE''),
    (''QuadVee Cockpit'', ''QUADVEE'')]"

definition map_cockpit_type :: "string \<Rightarrow> py_error + string" where
  "map_cockpit_type raw =
     (let clean = strip raw in Inr (dict_get COCKPIT_TYPE_MAP clean ''STANDARD''))"

subsection \<open>Internal structure type\<close>

definition STRUCTURE_TYPE_MAP :: "(string \<times> string) list" where
  "STRUCTURE_TYPE_MAP = [
    (''Standard'', ''STANDARD''),
    (''IS Standard'', ''STANDARD''),
    (''Standard Structure'', ''STANDARD''),
    (''Endo Steel'', ''ENDO_STEEL''),
    (''IS Endo Steel'', ''ENDO_STEEL''),
    (''Endo-Steel'', ''ENDO_STEEL''),
    (''Clan Endo Steel'', ''ENDO_STEEL_CLAN''),
    (''Clan Endo-Steel'', ''ENDO_STEEL_CLAN''),
    (''Endo-Composite'', ''ENDO_COMPOSITE''),
    (''Endo Composite'', ''ENDO_COMPOSITE''),
    (''Reinforced'', ''REINFORCED''),
    (''Reinforced Structure'', ''REINFORCED''),
    (''Composite'', ''COMPOSITE''),
    (''Composite Structure'', ''COMPOSITE''),
    (''Industrial'', ''INDUSTRIAL''),
    (''Industrial Structure'', ''INDUSTRIAL'')]"

definition map_structure_type :: "string \<Rightarrow> py_error + string" where
  "map_structure_type raw =
     (let clean = strip raw
      in if dict_contains STRUCTURE_TYPE_MAP clean then dict_getitem STRUCTURE_TYPE_MAP clean
         else let up = upper clean
           in if contains ''ENDO'' up \<and> contains ''COMPOSITE'' up then Inr ''ENDO_COMPOSITE''
              else if contains ''ENDO'' up \<and> contains ''CLAN'' up then Inr ''ENDO_STEEL_CLAN''
              else if contains ''ENDO'' up then Inr ''ENDO_STEEL''
              else if contains ''REINFORCED'' up then Inr ''REINFORCED''
              else if contains ''COMPOSITE'' up then Inr ''COMPOSITE''
              else if contains ''INDUSTRIAL'' up then Inr ''INDUSTRIAL''
              else Inr ''STANDARD'')"

subsection \<open>Armor type\<close>

definition ARMOR_TYPE_MAP :: "(string \<times> string) list" where
  "ARMOR_TYPE_MAP = [
    (''Standard'', ''STANDARD''),
    (''Standard Armor'', ''STANDARD''),
    (''Standard(Inner Sphere)'', ''STANDARD''),
    (''Ferro-Fibrous'', ''FERRO_FIBROUS''),
    (''Ferro-Fibrous Armor'', ''FERRO_FIBROUS''),
    (''Ferro-Fibrous(Inner Sphere)'', ''FERRO_FIBROUS''),
    (''IS Ferro-Fibrous'', ''FERRO_FIBROUS''),
    (''Clan Ferro-Fibrous'', ''FERRO_FIBROUS_CLAN''),
    (''Ferro-Fibrous(Clan)'', ''FERRO_FIBROUS_CLAN''),
    (''Light Ferro-Fibrous'', ''LIGHT_FERRO_FIBROUS''),
    (''Light Ferro-Fibrous Armor'', ''LIGHT_FERRO_FIBROUS''),
    (''Heavy Ferro-Fibrous'', ''HEAVY_FERRO_FIBROUS''),
    (''Heavy Ferro-Fibrous Armor'', ''HEAVY_FERRO_FIBROUS''),
    (''Stealth Armor'', ''STEALTH''),
    (''Stealth'', ''STEALTH''),
    (''Reactive Armor'', ''REACTIVE''),
    (''Reactive'', ''REACTIVE''),
    (''Reflective Armor'', ''REFLECTIVE''),
    (''Reflective'', ''REFLECTIVE''),
    (''Laser-Reflective'', ''REFLECTIVE''),
    (''Hardened Armor'', ''HARDENED''),
    (''Hardened'', ''HARDENED''),
    (''Primitive Armor'', ''PRIMITIVE''),
    (''Primitive'', ''PRIMITIVE''),
    (''Industrial Armor'', ''INDUSTRIAL''),
    (''Industrial'', ''INDUSTRIAL''),
    (''Commercial'', ''COMMERCIAL''),
    (''Commercial Armor'', ''COMMERCIAL''),
    (''Heavy Industrial'', ''HEAVY_INDUSTRIAL''),
    (''Heavy Industrial Armor'', ''HEAVY_INDUSTRIAL''),
    (''Impact-Resistant'', ''IMPACT_RESISTANT''),
    (''Impact-Resistant Armor'', ''IMPACT_RESISTANT'')]"

definition map_armor_type :: "string \<Rightarrow> py_error + string" where
  "map_armor_type raw =
     (let clean = strip raw
      in if dict_contains ARMOR_TYPE_MAP clean then dict_getitem ARMOR_TYPE_MAP clean
         else let up = upper clean
           in if contains ''STEALTH'' up then Inr ''STEALTH''
              else if contains ''REACTIVE'' up then Inr ''REACTIVE''
              else if contains ''REFLECTIVE'' up \<or> contains ''LASER-REFLECT'' up
                then Inr ''REFLECTIVE''
              else if contains ''HARDENED'' up then Inr ''HARDENED''
              else if contains ''HEAVY'' up \<and> contains ''FERRO'' up
                then Inr ''HEAVY_FERRO_FIBROUS''
              else if contains ''LIGHT'' up \<and> contains ''FERRO'' up
                then Inr ''LIGHT_FERRO_FIBROUS''
              else if contains ''FERRO'' up \<and> contains ''CLAN'' up
                then Inr ''FERRO_FIBROUS_CLAN''
              else if contains ''FERRO'' up then Inr ''FERRO_FIBROUS''
              else if contains ''PRIMITIVE'' up then Inr ''PRIMITIVE''
              else if contains ''COMMERCIAL'' up then Inr ''COMMERCIAL''
              else if contains ''IMPACT'' up \<and> contains ''RESIST'' up
                then Inr ''IMPACT_RESISTANT''
              else if contains ''HEAVY'' up \<and> contains ''INDUSTRIAL'' up
                then Inr ''HEAVY_INDUSTRIAL''
              else if contains ''INDUSTRIAL'' up then Inr ''INDUSTRIAL''
              else Inr ''STANDARD'')"

subsection \<open>Heat sink type\<close>

definition HEAT_SINK_TYPE_MAP :: "(string \<times> string) list" where
  "HEAT_SINK_TYPE_MAP = [
    (''Single'', ''SINGLE''),
    (''Single Heat Sink'', ''SINGLE''),
    (''Single Heat Sinks'', ''SINGLE''),
    (''Double'', ''DOUBLE''),
    (''Double Heat Sink'', ''DOUBLE''),
    (''Double Heat Sinks'', ''DOUBLE''),
    (''Double (IS)'', ''DOUBLE''),
    (''Double (Clan)'', ''DOUBLE_CLAN''),
    (''Clan Double Heat Sink'', ''DOUBLE_CLAN''),
    (''Clan Double'', ''DOUBLE_CLAN''),
    (''Compact'', ''COMPACT''),
    (''Compact Heat Sink'', ''COMPACT''),
    (''Laser'', ''LASER''),
    (''Laser Heat Sink'', ''LASER'')]"

definition map_heat_sink_type :: "string \<Rightarrow> py_error + string" where
  "map_heat_sink_type raw =
     (let clean = strip raw
      in if dict_contains HEAT_SINK_TYPE_MAP clean then dict_getitem HEAT_SINK_TYPE_MAP clean
         else let up = upper clean
           in if contains ''DOUBLE'' up \<and> contains ''CLAN'' up then Inr ''DOUBLE_CLAN''
              else if contains ''DOUBLE'' up then Inr ''DOUBLE''
              else if contains ''COMPACT'' up then Inr ''COMPACT''
              else if contains ''LASER'' up then Inr ''LASER''
              else Inr ''SINGLE'')"

subsection \<open>Mech location\<close>

definition MECH_LOCATION_MAP :: "(string \<times> string) list" where
  "MECH_LOCATION_MAP = [
    (''Head'', ''HEAD''),
    (''HD'', ''HEAD''),
    (''Center Torso'', ''CENTER_TORSO''),
    (''CT'', ''CENTER_TORSO''),
    (''Left Torso'', ''LEFT_TORSO''),
    (''LT'', ''LEFT_TORSO''),
    (''Right Torso'', ''RIGHT_TORSO''),
    (''RT'', ''RIGHT_TORSO''),
    (''Left Arm'', ''LEFT_ARM''),
    (''LA'', ''LEFT_ARM''),
    (''Right Arm'', ''RIGHT_ARM''),
    (''RA'', ''RIGHT_ARM''),
    (''Left Leg'', ''LEFT_LEG''),
    (''LL'', ''LEFT_LEG''),
    (''Right Leg'', ''RIGHT_LEG''),
    (''RL'', ''RIGHT_LEG''),
    (''Center Torso (Rear)'', ''CENTER_TORSO_REAR''),
    (''CTR'', ''CENTER_TORSO_REAR''),
    (''RTC'', ''CENTER_TORSO_REAR''),
    (''Left Torso (Rear)'', ''LEFT_TORSO_REAR''),
    (''LTR'', ''LEFT_TORSO_REAR''),
    (''RTL'', ''LEFT_TORSO_REAR''),
    (''Right Torso (Rear)'', ''RIGHT_TORSO_REAR''),
    (''RTR'', ''RIGHT_TORSO_REAR''),
    (''Front Left Leg'', ''FRONT_LEFT_LEG''),
    (''FLL'', ''FRONT_LEFT_LEG''),
    (''Front Right Leg'', ''FRONT_RIGHT_LEG''),
    (''FRL'', ''FRONT_RIGHT_LEG''),
    (''Rear Left Leg'', ''REAR_LEFT_LEG''),
    (''RLL'', ''REAR_LEFT_LEG''),
    (''Rear Right Leg'', ''REAR_RIGHT_LEG''),
    (''RRL'', ''REAR_RIGHT_LEG'')]"

definition ARMOR_LOCATION_KEY_MAP :: "(string \<times> string) list" where
  "ARMOR_LOCATION_KEY_MAP = [
    (''la armor'', ''LEFT_ARM''),
    (''ra armor'', ''RIGHT_ARM''),
    (''lt armor'', ''LEFT_TORSO''),
    (''rt armor'', ''RIGHT_TORSO''),
    (''ct armor'', ''CENTER_TORSO''),
    (''hd armor'', ''HEAD''),
    (''ll armor'', ''LEFT_LEG''),
    (''rl armor'', ''RIGHT_LEG''),
    (''rtl armor'', ''LEFT_TORSO_REAR''),
    (''rtr armor'', ''RIGHT_TORSO_REAR''),
    (''rtc armor'', ''CENTER_TORSO_REAR''),
    (''la'', ''LEFT_ARM''),
    (''ra'', ''RIGHT_ARM''),
    (''lt'', ''LEFT_TORSO''),
    (''rt'', ''RIGHT_TORSO''),
    (''ct'', ''CENTER_TORSO''),
    (''hd'', ''HEAD''),
    (''ll'', ''LEFT_LEG''),
    (''rl'', ''RIGHT_LEG''),
    (''rtl'', ''LEFT_TORSO_REAR''),
    (''rtr'', ''RIGHT_TORSO_REAR''),
    (''rtc'', ''CENTER_TORSO_REAR'')]"

definition map_mech_location :: "string \<Rightarrow> py_error + string" where
  "map_mech_location raw =
     (let clean = strip raw
      in if dict_contains MECH_LOCATION_MAP clean then dict_getitem MECH_LOCATION_MAP clean
         else let low = lower clean
           in if dict_contains ARMOR_LOCATION_KEY_MAP low
                then dict_getitem ARMOR_LOCATION_KEY_MAP low
              else Inr (replace '' '' ''_'' (upper clean)))"

subsection \<open>Mech configuration\<close>

definition MECH_CONFIG_MAP :: "(string \<times> string) list" where
  "MECH_CONFIG_MAP = [
    (''Biped'', ''Biped''),
    (''Quad'', ''Quad''),
    (''Tripod'', ''Tripod''),
    (''LAM'', ''LAM''),
    (''QuadVee'', ''QuadVee''),
    (''Biped Omnimech'', ''Biped''),
    (''Quad Omnimech'', ''Quad'')]"

definition map_mech_config :: "string \<Rightarrow> py_error + string" where
  "map_mech_config raw =
     (let clean = strip raw in Inr (dict_get MECH_CONFIG_MAP clean ''Biped''))"

subsection \<open>Unit type\<close>

definition UNIT_TYPE_MAP :: "(string \<times> string) list" where
  "UNIT_TYPE_MAP = [
    (''BattleMech'', ''BattleMech''),
    (''Mech'', ''BattleMech''),
    (''Biped'', ''BattleMech''),
    (''Quad'', ''BattleMech''),
    (''OmniMech'', ''OmniMech''),
    (''IndustrialMech'', ''IndustrialMech''),
    (''ProtoMech'', ''ProtoMech''),
    (''Tank'', ''Vehicle''),
    (''Vehicle'', ''Vehicle''),
    (''VTOL'', ''VTOL''),
    (''Aerospace'', ''Aerospace''),
    (''AeroSpaceFighter'', ''Aerospace''),
    (''Conventional Fighter'', ''Conventional Fighter''),
    (''ConvFighter'', ''Conventional Fighter''),
    (''Small Craft'', ''Small Craft''),
    (''SmallCraft'', ''Small Craft''),
    (''DropShip'', ''DropShip''),
    (''Dropship'', ''DropShip''),
    (''JumpShip'', ''JumpShip''),
    (''Jumpship'', ''JumpShip''),
    (''WarShip'', ''WarShip''),
    (''Warship'', ''WarShip''),
    (''Space Station'', ''Space Station''),
    (''SpaceStation'', ''Space Station''),
    (''Infantry'', ''Infantry''),
    (''BattleArmor'', ''Battle Armor''),
    (''Battle Armor'', ''Battle Armor''),
    (''Support Vehicle'', ''Support Vehicle''),
    (''SupportVehicle'', ''Support Vehicle'')]"

definition map_unit_type :: "string \<Rightarrow> py_error + string" where
  "map_unit_type raw =
     (let clean = strip raw in Inr (dict_get UNIT_TYPE_MAP clean ''BattleMech''))"

subsection \<open>Eras\<close>

definition map_year_to_era :: "int \<Rightarrow> string" where
  "map_year_to_era year =
     (if year < 2005 then ''EARLY_SPACEFLIGHT''
      else if year < 2571 then ''AGE_OF_WAR''
      else if year < 2781 then ''STAR_LEAGUE''
      else if year < 3050 then ''SUCCESSION_WARS''
      else if year < 3068 then ''CLAN_INVASION''
      else if year < 3081 then ''CIVIL_WAR''
      else if year < 3152 then ''DARK_AGE''
      else ''ILCLAN'')"

text \<open>The local dictionary \<^verbatim>\<open>era_folders\<close> of \<^verbatim>\<open>get_era_folder_name\<close>.\<close>

definition era_folders :: py_dict where
  "era_folders = [
    (''EARLY_SPACEFLIGHT'', ''0-early-spaceflight''),
    (''AGE_OF_WAR'', ''1-age-of-war''),
    (''STAR_LEAGUE'', ''2-star-league''),
    (''SUCCESSION_WARS'', ''3-succession-wars''),
    (''CLAN_INVASION'', ''4-clan-invasion''),
    (''CIVIL_WAR'', ''5-civil-war''),
    (''DARK_AGE'', ''6-dark-age''),
    (''ILCLAN'', ''7-ilclan'')]"

definition get_era_folder_name :: "string \<Rightarrow> string" where
  "get_era_folder_name era = dict_get era_folders era ''99-unknown''"

subsection \<open>Identifier slugs\<close>

text \<open>
  The loop \<^verbatim>\<open>while "--" in id_str: id_str = id_str.replace("--", "-")\<close> shared by the two
  slug functions. Every round shortens the string, so the loop ends.
\<close>

lemma startswith_length: "startswith s p \<Longrightarrow> length p \<le> length s"
  by (induction s p rule: startswith.induct) auto

lemma length_replace_le:
  "old \<noteq> [] \<Longrightarrow> length new \<le> length old \<Longrightarrow> length (replace old new s) \<le> length s"
proof (induction old new s rule: replace.induct)
  case (1 old new)
  then show ?case by simp
next
  case (2 old new c cs)
  show ?case
  proof (cases "startswith (c # cs) old")
    case True
    have "length (replace old new (drop (length old) (c # cs))) \<le> length (drop (length old) (c # cs))"
      using 2 True by simp
    moreover have "length old \<le> length (c # cs)"
      using True by (rule startswith_length)
    ultimately show ?thesis using 2 True by simp
  next
    case False
    then show ?thesis using 2 by simp
  qed
qed

lemma length_replace_less:
  "contains old s \<Longrightarrow> length new < length old \<Longrightarrow> length (replace old new s) < length s"
proof (induction old new s rule: replace.induct)
  case (1 old new)
  then show ?case by simp
next
  case (2 old new c cs)
  then have ne: "old \<noteq> []" by auto
  show ?case
  proof (cases "startswith (c # cs) old")
    case True
    have "length (replace old new (drop (length old) (c # cs))) \<le> length (drop (length old) (c # cs))"
      using ne 2(5) by (intro length_replace_le) auto
    moreover have "length old \<le> length (c # cs)"
      using True by (rule startswith_length)
    ultimately show ?thesis using 2(5) True ne by simp
  next
    case False
    then show ?thesis using 2 ne by simp
  qed
qed

function remove_double_dashes :: "string \<Rightarrow> string" where
  "remove_double_dashes s =
     (if contains ''--'' s then remove_double_dashes (replace ''--'' ''-'' s) else s)"
  by pat_completeness auto
termination
  by (relation "measure length") (auto intro: length_replace_less)

declare remove_double_dashes.simps [simp del]

definition generate_id_from_name :: "string \<Rightarrow> string \<Rightarrow> string" where
  "generate_id_from_name chassis model =
     (let combined = lower (chassis @ ''-'' @ model);
          id_str = replace '')'' [] (replace ''('' [] (replace ''/'' ''-'' (replace '' '' ''-'' combined)));
          id_str = replace '','' [] (replace ''.'' [] (replace [CHR 0x22] [] (replace [CHR 0x27] [] id_str)));
          id_str = remove_double_dashes id_str
      in strip_chars ''-'' id_str)"

definition normalize_equipment_id :: "string \<Rightarrow> string" where
  "normalize_equipment_id name =
     (let id_str = lower name;
          id_str = replace ''(clan)'' ''clan'' id_str;
          id_str = replace ''(is)'' ''is'' id_str;
          id_str = replace ''(inner sphere)'' ''is'' id_str;
          id_str = replace '' '' ''-'' (replace ''/'' ''-'' id_str);
          id_str = replace '')'' [] (replace ''('' [] id_str);
          id_str = replace [CHR 0x22] [] (replace [CHR 0x27] [] id_str);
          id_str = remove_double_dashes id_str
      in strip_chars ''-'' id_str)"


section \<open>Closed enumerations\<close>

text \<open>
  The enumerations themselves are declared in the application that consumes the
  converted data, outside this repository.

  Modelled from the spec: the members of the tech base, rules level, engine type, gyro
  type and mech configuration enumerations, as the table of external interfaces lists them.
\<close>

definition TECH_BASES :: "string list" where
  "TECH_BASES = [''INNER_SPHERE'', ''CLAN'', ''MIXED'', ''BOTH'']"

definition RULES_LEVELS :: "string list" where
  "RULES_LEVELS = [''INTRODUCTORY'', ''STANDARD'', ''ADVANCED'', ''EXPERIMENTAL'', ''UNOFFICIAL'']"

definition ENGINE_TYPES :: "string list" where
  "ENGINE_TYPES = [''FUSION'', ''XL'', ''CLAN_XL'', ''LIGHT'', ''COMPACT'', ''XXL'', ''CLAN_XXL'',
     ''ICE'', ''FUEL_CELL'', ''FISSION'']"

definition GYRO_TYPES :: "string list" where
  "GYRO_TYPES = [''STANDARD'', ''XL'', ''COMPACT'', ''HEAVY_DUTY'', ''SUPERHEAVY'', ''NONE'']"

definition MECH_CONFIGS :: "string list" where
  "MECH_CONFIGS = [''Biped'', ''Quad'', ''Tripod'', ''LAM'', ''QuadVee'']"

text \<open>
  Modelled from the spec: for the other categories the members are not listed; the
  enumeration of a category is the set of canonical tokens, that is the tokens its alias
  table maps to (both location tables for the location category).
\<close>

definition canonical_tokens :: "py_dict \<Rightarrow> string list" where
  "canonical_tokens d = remdups (map snd d)"

definition COCKPIT_TYPES :: "string list" where
  "COCKPIT_TYPES = canonical_tokens COCKPIT_TYPE_MAP"

definition STRUCTURE_TYPES :: "string list" where
  "STRUCTURE_TYPES = canonical_tokens STRUCTURE_TYPE_MAP"

definition ARMOR_TYPES :: "string list" where
  "ARMOR_TYPES = canonical_tokens ARMOR_TYPE_MAP"

definition HEAT_SINK_TYPES :: "string list" where
  "HEAT_SINK_TYPES = canonical_tokens HEAT_SINK_TYPE_MAP"

definition UNIT_TYPES :: "string list" where
  "UNIT_TYPES = canonical_tokens UNIT_TYPE_MAP"

definition MECH_LOCATIONS :: "string list" where
  "MECH_LOCATIONS = canonical_tokens (MECH_LOCATION_MAP @ ARMOR_LOCATION_KEY_MAP)"

section \<open>Evaluation on concrete tokens\<close>

lemma upper_table_pairs:
  "upper_table =
    [(CHR 0x61, CHR 0x41), (CHR 0x62, CHR 0x42), (CHR 0x63, CHR 0x43),
     (CHR 0x64, CHR 0x44), (CHR 0x65, CHR 0x45), (CHR 0x66, CHR 0x46),
     (CHR 0x67, CHR 0x47), (CHR 0x68, CHR 0x48), (CHR 0x69, CHR 0x49),
     (CHR 0x6A, CHR 0x4A), (CHR 0x6B, CHR 0x4B), (CHR 0x6C, CHR 0x4C),
     (CHR 0x6D, CHR 0x4D), (CHR 0x6E, CHR 0x4E), (CHR 0x6F, CHR 0x4F),
     (CHR 0x70, CHR 0x50), (CHR 0x71, CHR 0x51), (CHR 0x72, CHR 0x52),
     (CHR 0x73, CHR 0x53), (CHR 0x74, CHR 0x54), (CHR 0x75, CHR 0x55),
     (CHR 0x76, CHR 0x56), (CHR 0x77, CHR 0x57), (CHR 0x78, CHR 0x58),
     (CHR 0x79, CHR 0x59), (CHR 0x7A, CHR 0x5A), (CHR 0xE0, CHR 0xC0),
     (CHR 0xE1, CHR 0xC1), (CHR 0xE2, CHR 0xC2), (CHR 0xE3, CHR 0xC3),
     (CHR 0xE4, CHR 0xC4), (CHR 0xE5, CHR 0xC5), (CHR 0xE6, CHR 0xC6),
     (CHR 0xE7, CHR 0xC7), (CHR 0xE8, CHR 0xC8), (CHR 0xE9, CHR 0xC9),
     (CHR 0xEA, CHR 0xCA), (CHR 0xEB, CHR 0xCB), (CHR 0xEC, CHR 0xCC),
     (CHR 0xED, CHR 0xCD), (CHR 0xEE, CHR 0xCE), (CHR 0xEF, CHR 0xCF),
     (CHR 0xF0, CHR 0xD0), (CHR 0xF1, CHR 0xD1), (CHR 0xF2, CHR 0xD2),
     (CHR 0xF3, CHR 0xD3), (CHR 0xF4, CHR 0xD4), (CHR 0xF5, CHR 0xD5),
     (CHR 0xF6, CHR 0xD6), (CHR 0xF8, CHR 0xD8), (CHR 0xF9, CHR 0xD9),
     (CHR 0xFA, CHR 0xDA), (CHR 0xFB, CHR 0xDB), (CHR 0xFC, CHR 0xDC),
     (CHR 0xFD, CHR 0xDD), (CHR 0xFE, CHR 0xDE)]"
  by (simp add: upper_table_def ascii_lowercase_def ascii_uppercase_def latin1_lowercase_def
      latin1_uppercase_def)

lemma lower_table_pairs:
  "lower_table =
    [(CHR 0x41, CHR 0x61), (CHR 0x42, CHR 0x62), (CHR 0x43, CHR 0x63),
     (CHR 0x44, CHR 0x64), (CHR 0x45, CHR 0x65), (CHR 0x46, CHR 0x66),
     (CHR 0x47, CHR 0x67), (CHR 0x48, CHR 0x68), (CHR 0x49, CHR 0x69),
     (CHR 0x4A, CHR 0x6A), (CHR 0x4B, CHR 0x6B), (CHR 0x4C, CHR 0x6C),
     (CHR 0x4D, CHR 0x6D), (CHR 0x4E, CHR 0x6E), (CHR 0x4F, CHR 0x6F),
     (CHR 0x50, CHR 0x70), (CHR 0x51, CHR 0x71), (CHR 0x52, CHR 0x72),
     (CHR 0x53, CHR 0x73), (CHR 0x54, CHR 0x74), (CHR 0x55, CHR 0x75),
     (CHR 0x56, CHR 0x76), (CHR 0x57, CHR 0x77), (CHR 0x58, CHR 0x78),
     (CHR 0x59, CHR 0x79), (CHR 0x5A, CHR 0x7A), (CHR 0xC0, CHR 0xE0),
     (CHR 0xC1, CHR 0xE1), (CHR 0xC2, CHR 0xE2), (CHR 0xC3, CHR 0xE3),
     (CHR 0xC4, CHR 0xE4), (CHR 0xC5, CHR 0xE5), (CHR 0xC6, CHR 0xE6),
     (CHR 0xC7, CHR 0xE7), (CHR 0xC8, CHR 0xE8), (CHR 0xC9, CHR 0xE9),
     (CHR 0xCA, CHR 0xEA), (CHR 0xCB, CHR 0xEB), (CHR 0xCC, CHR 0xEC),
     (CHR 0xCD, CHR 0xED), (CHR 0xCE, CHR 0xEE), (CHR 0xCF, CHR 0xEF),
     (CHR 0xD0, CHR 0xF0), (CHR 0xD1, CHR 0xF1), (CHR 0xD2, CHR 0xF2),
     (CHR 0xD3, CHR 0xF3), (CHR 0xD4, CHR 0xF4), (CHR 0xD5, CHR 0xF5),
     (CHR 0xD6, CHR 0xF6), (CHR 0xD8, CHR 0xF8), (CHR 0xD9, CHR 0xF9),
     (CHR 0xDA, CHR 0xFA), (CHR 0xDB, CHR 0xFB), (CHR 0xDC, CHR 0xFC),
     (CHR 0xDD, CHR 0xFD), (CHR 0xDE, CHR 0xFE)]"
  by (simp add: lower_table_def ascii_lowercase_def ascii_uppercase_def latin1_lowercase_def
      latin1_uppercase_def)

lemmas str_eval = lower_def upper_def lower_char_def upper_char_def upper_table_pairs
  lower_table_pairs strip_def strip_chars_def isspace_def isdigit_def

text \<open>The primitives on characters outside ASCII.\<close>

lemma latin1_examples:
  "strip ([CHR 0xA0] @ ''HD'' @ [CHR 0x85]) = ''HD''"
  "upper (''Stra'' @ [CHR 0xDF] @ ''e'') = ''STRASSE''"
  "upper [CHR 0xE9] = [CHR 0xC9]"
  "lower [CHR 0xC9] = [CHR 0xE9]"
  "upper [CHR 0xF7] = [CHR 0xF7]"
  "isdigit (CHR 0xB2)"
  "title (''stra'' @ [CHR 0xDF] @ ''e '' @ [CHR 0xDF] @ ''x'') = ''Stra'' @ [CHR 0xDF] @ ''e Ssx''"
  by (simp_all add: str_eval title_def title_char_def iscased_def ascii_lowercase_def
      ascii_uppercase_def latin1_lowercase_def latin1_uppercase_def)

lemmas dict_eval = dict_contains_def dict_get_def dict_getitem_def

text \<open>The mapping functions on tokens with characters outside ASCII.\<close>

lemma mapping_outside_ascii:
  "map_engine_type ([CHR 0xA0] @ ''XXL Engine(Clan)'' @ [CHR 0xA0]) = Inr ''CLAN_XXL''"
  "map_armor_type (''Heavy Ferro '' @ [CHR 0xDF] @ ''tealth'') = Inr ''STEALTH''"
  "map_mech_location (''Stra'' @ [CHR 0xDF] @ ''e'') = Inr ''STRASSE''"
  "map_mech_location ([CHR 0xA0] @ ''HD'' @ [CHR 0xA0]) = Inr ''HEAD''"
  "map_rules_level (''x'' @ [CHR 0xB2] @ ''3'') = Inr ''STANDARD''"
  "map_tech_base ([CHR 0x85] @ ''clan'') = Inr ''CLAN''"
  by (simp_all add: map_engine_type_def ENGINE_TYPE_MAP_def map_armor_type_def ARMOR_TYPE_MAP_def
      map_mech_location_def MECH_LOCATION_MAP_def ARMOR_LOCATION_KEY_MAP_def
      map_rules_level_def RULES_LEVEL_MAP_def map_tech_base_def TECH_BASE_MAP_def
      dict_eval str_eval title_def title_char_def iscased_def ascii_lowercase_def
      ascii_uppercase_def latin1_lowercase_def latin1_uppercase_def)

section \<open>Canonical tokens of the alias tables\<close>

lemma dict_getitem_hit:
  "dict_contains d k \<Longrightarrow> \<exists>v. dict_getitem d k = Inr v \<and> (k, v) \<in> set d"
  by (auto simp: dict_contains_def dict_getitem_def dest: map_of_SomeD)

lemma dict_get_cases:
  "dict_get d k dflt = dflt \<or> (k, dict_get d k dflt) \<in> set d"
  by (auto simp: dict_get_def dest: map_of_SomeD split: option.splits)


text \<open>The members of the enumerations that are read off the alias tables.\<close>

lemma COCKPIT_TYPES_members:
  "COCKPIT_TYPES =
    [''STANDARD'', ''SMALL'', ''COMMAND_CONSOLE'', ''TORSO_MOUNTED'',
     ''PRIMITIVE'', ''INDUSTRIAL'', ''PRIMITIVE_INDUSTRIAL'',
     ''SUPERHEAVY_INDUSTRIAL'', ''TRIPOD_INDUSTRIAL'',
     ''SUPERHEAVY_TRIPOD_INDUSTRIAL'', ''SUPERHEAVY'', ''SUPERHEAVY_TRIPOD'',
     ''INTERFACE'', ''QUADVEE'']"
  by (simp add: COCKPIT_TYPES_def canonical_tokens_def COCKPIT_TYPE_MAP_def)

lemma STRUCTURE_TYPES_members:
  "STRUCTURE_TYPES =
    [''STANDARD'', ''ENDO_STEEL'', ''ENDO_STEEL_CLAN'', ''ENDO_COMPOSITE'',
     ''REINFORCED'', ''COMPOSITE'', ''INDUSTRIAL'']"
  by (simp add: STRUCTURE_TYPES_def canonical_tokens_def STRUCTURE_TYPE_MAP_def)

lemma ARMOR_TYPES_members:
  "ARMOR_TYPES =
    [''STANDARD'', ''FERRO_FIBROUS'', ''FERRO_FIBROUS_CLAN'',
     ''LIGHT_FERRO_FIBROUS'', ''HEAVY_FERRO_FIBROUS'', ''STEALTH'',
     ''REACTIVE'', ''REFLECTIVE'', ''HARDENED'', ''PRIMITIVE'',
     ''INDUSTRIAL'', ''COMMERCIAL'', ''HEAVY_INDUSTRIAL'',
     ''IMPACT_RESISTANT'']"
  by (simp add: ARMOR_TYPES_def canonical_tokens_def ARMOR_TYPE_MAP_def)

lemma HEAT_SINK_TYPES_members:
  "HEAT_SINK_TYPES =
    [''SINGLE'', ''DOUBLE'', ''DOUBLE_CLAN'', ''COMPACT'', ''LASER'']"
  by (simp add: HEAT_SINK_TYPES_def canonical_tokens_def HEAT_SINK_TYPE_MAP_def)

lemma UNIT_TYPES_members:
  "UNIT_TYPES =
    [''BattleMech'', ''OmniMech'', ''IndustrialMech'', ''ProtoMech'', ''Vehicle'',
     ''VTOL'', ''Aerospace'', ''Conventional Fighter'', ''Small Craft'',
     ''DropShip'', ''JumpShip'', ''WarShip'', ''Space Station'',
     ''Infantry'', ''Battle Armor'', ''Support Vehicle'']"
  by (simp add: UNIT_TYPES_def canonical_tokens_def UNIT_TYPE_MAP_def)

lemma MECH_LOCATIONS_members:
  "MECH_LOCATIONS =
    [''FRONT_LEFT_LEG'', ''FRONT_RIGHT_LEG'', ''REAR_LEFT_LEG'',
     ''REAR_RIGHT_LEG'', ''LEFT_ARM'', ''RIGHT_ARM'', ''LEFT_TORSO'',
     ''RIGHT_TORSO'', ''CENTER_TORSO'', ''HEAD'', ''LEFT_LEG'',
     ''RIGHT_LEG'', ''LEFT_TORSO_REAR'', ''RIGHT_TORSO_REAR'',
     ''CENTER_TORSO_REAR'']"
  by (simp add: MECH_LOCATIONS_def canonical_tokens_def MECH_LOCATION_MAP_def
      ARMOR_LOCATION_KEY_MAP_def)

lemmas enum_defs = TECH_BASES_def RULES_LEVELS_def ENGINE_TYPES_def GYRO_TYPES_def MECH_CONFIGS_def
  COCKPIT_TYPES_members STRUCTURE_TYPES_members ARMOR_TYPES_members HEAT_SINK_TYPES_members
  UNIT_TYPES_members MECH_LOCATIONS_members

lemma TECH_BASE_MAP_values: "(k, v) \<in> set TECH_BASE_MAP \<Longrightarrow> v \<in> set TECH_BASES"
  by (auto simp: TECH_BASE_MAP_def enum_defs)

lemma RULES_LEVEL_MAP_values: "(k, v) \<in> set RULES_LEVEL_MAP \<Longrightarrow> v \<in> set RULES_LEVELS"
  by (auto simp: RULES_LEVEL_MAP_def enum_defs)

lemma ENGINE_TYPE_MAP_values: "(k, v) \<in> set ENGINE_TYPE_MAP \<Longrightarrow> v \<in> set ENGINE_TYPES"
  by (auto simp: ENGINE_TYPE_MAP_def enum_defs)

lemma GYRO_TYPE_MAP_values: "(k, v) \<in> set GYRO_TYPE_MAP \<Longrightarrow> v \<in> set GYRO_TYPES"
  by (auto simp: GYRO_TYPE_MAP_def enum_defs)

lemma STRUCTURE_TYPE_MAP_values: "(k, v) \<in> set STRUCTURE_TYPE_MAP \<Longrightarrow> v \<in> set STRUCTURE_TYPES"
  by (auto simp: STRUCTURE_TYPE_MAP_def enum_defs)

lemma ARMOR_TYPE_MAP_values: "(k, v) \<in> set ARMOR_TYPE_MAP \<Longrightarrow> v \<in> set ARMOR_TYPES"
  by (auto simp: ARMOR_TYPE_MAP_def enum_defs)

lemma HEAT_SINK_TYPE_MAP_values: "(k, v) \<in> set HEAT_SINK_TYPE_MAP \<Longrightarrow> v \<in> set HEAT_SINK_TYPES"
  by (auto simp: HEAT_SINK_TYPE_MAP_def enum_defs)

lemma COCKPIT_TYPE_MAP_values: "(k, v) \<in> set COCKPIT_TYPE_MAP \<Longrightarrow> v \<in> set COCKPIT_TYPES"
  by (auto simp: COCKPIT_TYPE_MAP_def enum_defs)

lemma MECH_CONFIG_MAP_values: "(k, v) \<in> set MECH_CONFIG_MAP \<Longrightarrow> v \<in> set MECH_CONFIGS"
  by (auto simp: MECH_CONFIG_MAP_def enum_defs)

lemma UNIT_TYPE_MAP_values: "(k, v) \<in> set UNIT_TYPE_MAP \<Longrightarrow> v \<in> set UNIT_TYPES"
  by (auto simp: UNIT_TYPE_MAP_def enum_defs)

lemma rules_level_of_first_digit_range: "rules_level_of_first_digit s \<in> set RULES_LEVELS"
proof (induction s)
  case Nil
  show ?case by (simp add: RULES_LEVELS_def)
next
  case (Cons c cs)
  have "dict_get RULES_LEVEL_MAP [c] ''STANDARD'' \<in> set RULES_LEVELS"
    using dict_get_cases [of RULES_LEVEL_MAP "[c]" "''STANDARD''"] RULES_LEVEL_MAP_values
    by (auto simp: RULES_LEVELS_def)
  with Cons show ?case by simp
qed

lemma map_tech_base_range: "\<exists>v. map_tech_base s = Inr v \<and> v \<in> set TECH_BASES"
proof -
  let ?inner = "dict_get TECH_BASE_MAP (title (strip s)) ''INNER_SPHERE''"
  have "?inner \<in> set TECH_BASES"
    using dict_get_cases [of TECH_BASE_MAP "title (strip s)" "''INNER_SPHERE''"] TECH_BASE_MAP_values
    by (auto simp: TECH_BASES_def)
  then have "dict_get TECH_BASE_MAP (strip s) ?inner \<in> set TECH_BASES"
    using dict_get_cases [of TECH_BASE_MAP "strip s" ?inner] TECH_BASE_MAP_values by auto
  then show ?thesis by (simp add: map_tech_base_def Let_def)
qed

lemma map_rules_level_range: "\<exists>v. map_rules_level s = Inr v \<and> v \<in> set RULES_LEVELS"
proof (cases "dict_contains RULES_LEVEL_MAP (strip s)")
  case True
  then obtain v where "dict_getitem RULES_LEVEL_MAP (strip s) = Inr v"
    and "(strip s, v) \<in> set RULES_LEVEL_MAP"
    using dict_getitem_hit by blast
  then show ?thesis using True RULES_LEVEL_MAP_values by (simp add: map_rules_level_def)
next
  case False
  then show ?thesis by (simp add: map_rules_level_def rules_level_of_first_digit_range)
qed

lemma map_engine_type_range: "\<exists>v. map_engine_type s = Inr v \<and> v \<in> set ENGINE_TYPES"
proof (cases "dict_contains ENGINE_TYPE_MAP (strip s)")
  case True
  then obtain v where "dict_getitem ENGINE_TYPE_MAP (strip s) = Inr v"
    and "(strip s, v) \<in> set ENGINE_TYPE_MAP"
    using dict_getitem_hit by blast
  then show ?thesis using True ENGINE_TYPE_MAP_values by (simp add: map_engine_type_def)
next
  case False
  show ?thesis using False by (simp add: map_engine_type_def Let_def ENGINE_TYPES_def)
qed

lemma map_gyro_type_range: "\<exists>v. map_gyro_type s = Inr v \<and> v \<in> set GYRO_TYPES"
proof (cases "dict_contains GYRO_TYPE_MAP (strip s)")
  case True
  then obtain v where "dict_getitem GYRO_TYPE_MAP (strip s) = Inr v"
    and "(strip s, v) \<in> set GYRO_TYPE_MAP"
    using dict_getitem_hit by blast
  then show ?thesis using True GYRO_TYPE_MAP_values by (simp add: map_gyro_type_def)
next
  case False
  show ?thesis using False by (simp add: map_gyro_type_def Let_def GYRO_TYPES_def)
qed

lemma map_structure_type_range: "\<exists>v. map_structure_type s = Inr v \<and> v \<in> set STRUCTURE_TYPES"
proof (cases "dict_contains STRUCTURE_TYPE_MAP (strip s)")
  case True
  then obtain v where "dict_getitem STRUCTURE_TYPE_MAP (strip s) = Inr v"
    and "(strip s, v) \<in> set STRUCTURE_TYPE_MAP"
    using dict_getitem_hit by blast
  then show ?thesis using True STRUCTURE_TYPE_MAP_values by (simp add: map_structure_type_def)
next
  case False
  have toks: "set STRUCTURE_TYPES = snd ` set STRUCTURE_TYPE_MAP"
    by (simp add: STRUCTURE_TYPES_def canonical_tokens_def)
  show ?thesis using False unfolding map_structure_type_def Let_def toks
    by (simp add: STRUCTURE_TYPE_MAP_def)
qed

lemma map_armor_type_range: "\<exists>v. map_armor_type s = Inr v \<and> v \<in> set ARMOR_TYPES"
proof (cases "dict_contains ARMOR_TYPE_MAP (strip s)")
  case True
  then obtain v where "dict_getitem ARMOR_TYPE_MAP (strip s) = Inr v"
    and "(strip s, v) \<in> set ARMOR_TYPE_MAP"
    using dict_getitem_hit by blast
  then show ?thesis using True ARMOR_TYPE_MAP_values by (simp add: map_armor_type_def)
next
  case False
  have toks: "set ARMOR_TYPES = snd ` set ARMOR_TYPE_MAP"
    by (simp add: ARMOR_TYPES_def canonical_tokens_def)
  show ?thesis using False unfolding map_armor_type_def Let_def toks
    by (simp add: ARMOR_TYPE_MAP_def)
qed

lemma map_heat_sink_type_range: "\<exists>v. map_heat_sink_type s = Inr v \<and> v \<in> set HEAT_SINK_TYPES"
proof (cases "dict_contains HEAT_SINK_TYPE_MAP (strip s)")
  case True
  then obtain v where "dict_getitem HEAT_SINK_TYPE_MAP (strip s) = Inr v"
    and "(strip s, v) \<in> set HEAT_SINK_TYPE_MAP"
    using dict_getitem_hit by blast
  then show ?thesis using True HEAT_SINK_TYPE_MAP_values by (simp add: map_heat_sink_type_def)
next
  case False
  have toks: "set HEAT_SINK_TYPES = snd ` set HEAT_SINK_TYPE_MAP"
    by (simp add: HEAT_SINK_TYPES_def canonical_tokens_def)
  show ?thesis using False unfolding map_heat_sink_type_def Let_def toks
    by (simp add: HEAT_SINK_TYPE_MAP_def)
qed

lemma map_cockpit_type_range: "\<exists>v. map_cockpit_type s = Inr v \<and> v \<in> set COCKPIT_TYPES"
proof -
  have "''STANDARD'' \<in> set COCKPIT_TYPES"
    by (simp add: COCKPIT_TYPE_MAP_def enum_defs)
  then have "dict_get COCKPIT_TYPE_MAP (strip s) ''STANDARD'' \<in> set COCKPIT_TYPES"
    using dict_get_cases [of COCKPIT_TYPE_MAP "strip s" "''STANDARD''"] COCKPIT_TYPE_MAP_values by auto
  then show ?thesis by (simp add: map_cockpit_type_def Let_def)
qed

lemma map_mech_config_range: "\<exists>v. map_mech_config s = Inr v \<and> v \<in> set MECH_CONFIGS"
proof -
  have "''Biped'' \<in> set MECH_CONFIGS"
    by (simp add: MECH_CONFIG_MAP_def enum_defs)
  then have "dict_get MECH_CONFIG_MAP (strip s) ''Biped'' \<in> set MECH_CONFIGS"
    using dict_get_cases [of MECH_CONFIG_MAP "strip s" "''Biped''"] MECH_CONFIG_MAP_values by auto
  then show ?thesis by (simp add: map_mech_config_def Let_def)
qed

lemma map_unit_type_range: "\<exists>v. map_unit_type s = Inr v \<and> v \<in> set UNIT_TYPES"
proof -
  have "''BattleMech'' \<in> set UNIT_TYPES"
    by (simp add: UNIT_TYPE_MAP_def enum_defs)
  then have "dict_get UNIT_TYPE_MAP (strip s) ''BattleMech'' \<in> set UNIT_TYPES"
    using dict_get_cases [of UNIT_TYPE_MAP "strip s" "''BattleMech''"] UNIT_TYPE_MAP_values by auto
  then show ?thesis by (simp add: map_unit_type_def Let_def)
qed

lemma map_mech_location_total: "\<exists>v. map_mech_location s = Inr v"
  using dict_getitem_hit [of MECH_LOCATION_MAP "strip s"]
    dict_getitem_hit [of ARMOR_LOCATION_KEY_MAP "lower (strip s)"]
  by (auto simp: map_mech_location_def Let_def)

section \<open>Totality and closed range\<close>

text \<open>
  C1. Totality: each of the eleven mapping functions returns a value on every input string,
  the empty string and the strings that match no alias and no substring test included;
  no subscript of an alias table raises.
\<close>

theorem mapping_functions_total:
  "(\<exists>v. map_tech_base s = Inr v) \<and> (\<exists>v. map_rules_level s = Inr v) \<and>
   (\<exists>v. map_engine_type s = Inr v) \<and> (\<exists>v. map_gyro_type s = Inr v) \<and>
   (\<exists>v. map_cockpit_type s = Inr v) \<and> (\<exists>v. map_structure_type s = Inr v) \<and>
   (\<exists>v. map_armor_type s = Inr v) \<and> (\<exists>v. map_heat_sink_type s = Inr v) \<and>
   (\<exists>v. map_mech_location s = Inr v) \<and> (\<exists>v. map_mech_config s = Inr v) \<and>
   (\<exists>v. map_unit_type s = Inr v)"
proof -
  have "\<exists>v. map_tech_base s = Inr v" using map_tech_base_range by blast
  moreover have "\<exists>v. map_rules_level s = Inr v" using map_rules_level_range by blast
  moreover have "\<exists>v. map_engine_type s = Inr v" using map_engine_type_range by blast
  moreover have "\<exists>v. map_gyro_type s = Inr v" using map_gyro_type_range by blast
  moreover have "\<exists>v. map_cockpit_type s = Inr v" using map_cockpit_type_range by blast
  moreover have "\<exists>v. map_structure_type s = Inr v" using map_structure_type_range by blast
  moreover have "\<exists>v. map_armor_type s = Inr v" using map_armor_type_range by blast
  moreover have "\<exists>v. map_heat_sink_type s = Inr v" using map_heat_sink_type_range by blast
  moreover have "\<exists>v. map_mech_location s = Inr v" by (rule map_mech_location_total)
  moreover have "\<exists>v. map_mech_config s = Inr v" using map_mech_config_range by blast
  moreover have "\<exists>v. map_unit_type s = Inr v" using map_unit_type_range by blast
  ultimately show ?thesis by blast
qed

text \<open>
  C2. Closed range: for every category but the location, the value returned on any input
  string is a member of the category's closed enumeration; the engine type is one of
  the ten engine tokens and the rules level one of the five rules-level tokens.
\<close>

theorem mapping_functions_closed_range:
  "(\<exists>v. map_tech_base s = Inr v \<and> v \<in> set TECH_BASES) \<and>
   (\<exists>v. map_rules_level s = Inr v \<and> v \<in> set RULES_LEVELS) \<and>
   (\<exists>v. map_engine_type s = Inr v \<and> v \<in> set ENGINE_TYPES) \<and>
   (\<exists>v. map_gyro_type s = Inr v \<and> v \<in> set GYRO_TYPES) \<and>
   (\<exists>v. map_cockpit_type s = Inr v \<and> v \<in> set COCKPIT_TYPES) \<and>
   (\<exists>v. map_structure_type s = Inr v \<and> v \<in> set STRUCTURE_TYPES) \<and>
   (\<exists>v. map_armor_type s = Inr v \<and> v \<in> set ARMOR_TYPES) \<and>
   (\<exists>v. map_heat_sink_type s = Inr v \<and> v \<in> set HEAT_SINK_TYPES) \<and>
   (\<exists>v. map_mech_config s = Inr v \<and> v \<in> set MECH_CONFIGS) \<and>
   (\<exists>v. map_unit_type s = Inr v \<and> v \<in> set UNIT_TYPES)"
  by (intro conjI map_tech_base_range map_rules_level_range map_engine_type_range
      map_gyro_type_range map_cockpit_type_range map_structure_type_range map_armor_type_range
      map_heat_sink_type_range map_mech_config_range map_unit_type_range)

section \<open>Era boundaries\<close>

text \<open>
  C5. The era boundaries are half-open: the year 3049 is still in the Succession Wars and
  3050 opens the Clan Invasion; 3067 is still in the Clan Invasion and 3068 opens the
  Civil War.
\<close>

theorem era_boundaries_half_open:
  "map_year_to_era 3049 = ''SUCCESSION_WARS'' \<and> map_year_to_era 3050 = ''CLAN_INVASION'' \<and>
   map_year_to_era 3067 = ''CLAN_INVASION'' \<and> map_year_to_era 3068 = ''CIVIL_WAR''"
  by (simp add: map_year_to_era_def)

text \<open>
  C3, as stated: the classification has seven intervals and seven era tokens. The years
  2004, 2005, 2571, 2781, 3050, 3068, 3081 and 3152 fall into eight different eras.
\<close>

theorem era_seven_tokens_counterexample:
  "length (remdups (map map_year_to_era [2004, 2005, 2571, 2781, 3050, 3068, 3081, 3152])) = 8"
  by (simp add: map_year_to_era_def)

text \<open>
  C3, amended: \<open>map_year_to_era\<close> classifies a year over eight contiguous half-open
  intervals that cover every integer, one for each era token, and its result is always
  one of the eight era tokens that \<open>get_era_folder_name\<close> knows.
\<close>

theorem era_classification:
  "dict_contains era_folders (map_year_to_era y) \<and> length era_folders = 8 \<and>
   (map_year_to_era y = ''EARLY_SPACEFLIGHT'') = (y < 2005) \<and>
   (map_year_to_era y = ''AGE_OF_WAR'') = (2005 \<le> y \<and> y < 2571) \<and>
   (map_year_to_era y = ''STAR_LEAGUE'') = (2571 \<le> y \<and> y < 2781) \<and>
   (map_year_to_era y = ''SUCCESSION_WARS'') = (2781 \<le> y \<and> y < 3050) \<and>
   (map_year_to_era y = ''CLAN_INVASION'') = (3050 \<le> y \<and> y < 3068) \<and>
   (map_year_to_era y = ''CIVIL_WAR'') = (3068 \<le> y \<and> y < 3081) \<and>
   (map_year_to_era y = ''DARK_AGE'') = (3081 \<le> y \<and> y < 3152) \<and>
   (map_year_to_era y = ''ILCLAN'') = (3152 \<le> y)"
  by (simp add: map_year_to_era_def era_folders_def dict_contains_def)

section \<open>Fallback defaults and priorities\<close>

text \<open>
  C4, as stated: a heat-sink token that matches no alias and no substring test maps to
  STANDARD. The token Prototype is such a token and maps to SINGLE.
\<close>

theorem heat_sink_default_counterexample:
  "\<not> dict_contains HEAT_SINK_TYPE_MAP (strip ''Prototype'') \<and>
   \<not> contains ''DOUBLE'' (upper (strip ''Prototype'')) \<and>
   \<not> contains ''CLAN'' (upper (strip ''Prototype'')) \<and>
   \<not> contains ''COMPACT'' (upper (strip ''Prototype'')) \<and>
   \<not> contains ''LASER'' (upper (strip ''Prototype'')) \<and>
   map_heat_sink_type ''Prototype'' = Inr ''SINGLE'' \<and>
   map_heat_sink_type ''Prototype'' \<noteq> Inr ''STANDARD''"
  by (simp add: map_heat_sink_type_def HEAT_SINK_TYPE_MAP_def dict_eval str_eval)

text \<open>
  C4, amended: a heat-sink token whose trimmed form is no alias of the heat-sink table and
  whose upper-cased form matches none of the four substring tests maps to the default of
  the category, which is SINGLE.
\<close>

theorem heat_sink_default:
  "\<not> dict_contains HEAT_SINK_TYPE_MAP (strip s) \<Longrightarrow>
   \<not> (contains ''DOUBLE'' (upper (strip s)) \<and> contains ''CLAN'' (upper (strip s))) \<Longrightarrow>
   \<not> contains ''DOUBLE'' (upper (strip s)) \<Longrightarrow>
   \<not> contains ''COMPACT'' (upper (strip s)) \<Longrightarrow>
   \<not> contains ''LASER'' (upper (strip s)) \<Longrightarrow>
   map_heat_sink_type s = Inr ''SINGLE''"
  by (simp add: map_heat_sink_type_def Let_def)

theorem heat_sink_default_witness:
  "\<not> dict_contains HEAT_SINK_TYPE_MAP (strip '' Triple Heat Sink '') \<and>
   map_heat_sink_type '' Triple Heat Sink '' = Inr ''SINGLE''"
proof -
  let ?s = "'' Triple Heat Sink ''"
  have h1: "\<not> dict_contains HEAT_SINK_TYPE_MAP (strip ?s)"
    by (simp add: HEAT_SINK_TYPE_MAP_def dict_eval str_eval)
  have h2: "\<not> (contains ''DOUBLE'' (upper (strip ?s)) \<and> contains ''CLAN'' (upper (strip ?s)))"
    by (simp add: str_eval)
  have h3: "\<not> contains ''DOUBLE'' (upper (strip ?s))" by (simp add: str_eval)
  have h4: "\<not> contains ''COMPACT'' (upper (strip ?s))" by (simp add: str_eval)
  have h5: "\<not> contains ''LASER'' (upper (strip ?s))" by (simp add: str_eval)
  from heat_sink_default [OF h1 h2 h3 h4 h5] h1 show ?thesis by blast
qed

text \<open>
  C10, as stated: CLAN_XXL is reached through the two exact aliases XXL Engine(Clan)
  and 5. The numeric code 5 is an alias of XXL.
\<close>

theorem engine_code_5_counterexample:
  "dict_contains ENGINE_TYPE_MAP (strip ''5'') \<and> map_engine_type ''5'' = Inr ''XXL'' \<and>
   map_engine_type ''5'' \<noteq> Inr ''CLAN_XXL''"
  by (simp add: map_engine_type_def ENGINE_TYPE_MAP_def dict_eval str_eval)

lemma ENGINE_TYPE_MAP_clan_xxl:
  "(k, ''CLAN_XXL'') \<in> set ENGINE_TYPE_MAP \<Longrightarrow> k = ''XXL Engine(Clan)''"
  by (simp add: ENGINE_TYPE_MAP_def)

text \<open>
  C10, amended: an engine token whose trimmed form is no key of the engine table never
  maps to CLAN_XXL, since the test for XXL comes before the test for XL together with
  CLAN, so that Clan XXL Engine maps to XXL; CLAN_XXL is the result exactly when the
  trimmed token is the alias XXL Engine(Clan).
\<close>

theorem clan_xxl_only_by_alias:
  "(\<not> dict_contains ENGINE_TYPE_MAP (strip s) \<longrightarrow> map_engine_type s \<noteq> Inr ''CLAN_XXL'') \<and>
   map_engine_type ''Clan XXL Engine'' = Inr ''XXL'' \<and>
   (map_engine_type s = Inr ''CLAN_XXL'') = (strip s = ''XXL Engine(Clan)'')"
proof (intro conjI impI)
  assume "\<not> dict_contains ENGINE_TYPE_MAP (strip s)"
  then show "map_engine_type s \<noteq> Inr ''CLAN_XXL''"
    by (simp add: map_engine_type_def Let_def)
next
  show "map_engine_type ''Clan XXL Engine'' = Inr ''XXL''"
    by (simp add: map_engine_type_def ENGINE_TYPE_MAP_def dict_eval str_eval)
next
  show "(map_engine_type s = Inr ''CLAN_XXL'') = (strip s = ''XXL Engine(Clan)'')"
  proof
    assume r: "map_engine_type s = Inr ''CLAN_XXL''"
    then have hit: "dict_contains ENGINE_TYPE_MAP (strip s)"
      by (simp add: map_engine_type_def Let_def split: if_splits)
    then obtain v where "dict_getitem ENGINE_TYPE_MAP (strip s) = Inr v"
      and "(strip s, v) \<in> set ENGINE_TYPE_MAP"
      using dict_getitem_hit by blast
    with r hit have "(strip s, ''CLAN_XXL'') \<in> set ENGINE_TYPE_MAP"
      by (simp add: map_engine_type_def)
    then show "strip s = ''XXL Engine(Clan)''" by (rule ENGINE_TYPE_MAP_clan_xxl)
  next
    assume "strip s = ''XXL Engine(Clan)''"
    then show "map_engine_type s = Inr ''CLAN_XXL''"
      by (simp add: map_engine_type_def ENGINE_TYPE_MAP_def dict_eval)
  qed
qed

theorem clan_xxl_only_by_alias_witness:
  "\<not> dict_contains ENGINE_TYPE_MAP (strip ''Clan XXL Engine'') \<and>
   map_engine_type ''Clan XXL Engine'' \<noteq> Inr ''CLAN_XXL''"
proof -
  have h: "\<not> dict_contains ENGINE_TYPE_MAP (strip ''Clan XXL Engine'')"
    by (simp add: ENGINE_TYPE_MAP_def dict_eval str_eval)
  with clan_xxl_only_by_alias [of "''Clan XXL Engine''"] show ?thesis by blast
qed

text \<open>
  C7. Armor priority ordering: Heavy Ferro-Fibrous Armor maps to HEAVY_FERRO_FIBROUS and
  not to the generic FERRO_FIBROUS, and so does the token Heavy Ferro-Fibrous Prototype,
  which is no alias and goes through the fallback. In the fallback the tests for two
  substrings come before the test for one of them alone: for a token that is no alias
  and matches none of the four earlier tests (STEALTH, REACTIVE, REFLECTIVE or
  LASER-REFLECT, HARDENED), the result is the heavy variant exactly when the upper-cased
  token contains HEAVY and FERRO, the light variant exactly when it contains LIGHT and
  FERRO but not HEAVY, the Clan variant exactly when it contains FERRO and CLAN but
  neither HEAVY nor LIGHT, and the generic FERRO_FIBROUS exactly when it contains FERRO
  and none of HEAVY, LIGHT and CLAN. In the same way HEAVY together with INDUSTRIAL is
  tested before INDUSTRIAL alone.
\<close>

theorem armor_priority_ordering:
  "map_armor_type ''Heavy Ferro-Fibrous Armor'' = Inr ''HEAVY_FERRO_FIBROUS'' \<and>
   map_armor_type ''Heavy Ferro-Fibrous Prototype'' = Inr ''HEAVY_FERRO_FIBROUS'' \<and>
   (let up = upper (strip s) in
     \<not> dict_contains ARMOR_TYPE_MAP (strip s) \<and>
     \<not> contains ''STEALTH'' up \<and> \<not> contains ''REACTIVE'' up \<and>
     \<not> (contains ''REFLECTIVE'' up \<or> contains ''LASER-REFLECT'' up) \<and>
     \<not> contains ''HARDENED'' up
     \<longrightarrow>
       (map_armor_type s = Inr ''HEAVY_FERRO_FIBROUS'') =
         (contains ''HEAVY'' up \<and> contains ''FERRO'' up) \<and>
       (map_armor_type s = Inr ''LIGHT_FERRO_FIBROUS'') =
         (\<not> contains ''HEAVY'' up \<and> contains ''LIGHT'' up \<and> contains ''FERRO'' up) \<and>
       (map_armor_type s = Inr ''FERRO_FIBROUS_CLAN'') =
         (\<not> contains ''HEAVY'' up \<and> \<not> contains ''LIGHT'' up \<and>
          contains ''FERRO'' up \<and> contains ''CLAN'' up) \<and>
       (map_armor_type s = Inr ''FERRO_FIBROUS'') =
         (contains ''FERRO'' up \<and> \<not> contains ''HEAVY'' up \<and>
          \<not> contains ''LIGHT'' up \<and> \<not> contains ''CLAN'' up) \<and>
       (map_armor_type s = Inr ''HEAVY_INDUSTRIAL'') =
         (\<not> contains ''FERRO'' up \<and> \<not> contains ''PRIMITIVE'' up \<and>
          \<not> contains ''COMMERCIAL'' up \<and>
          \<not> (contains ''IMPACT'' up \<and> contains ''RESIST'' up) \<and>
          contains ''HEAVY'' up \<and> contains ''INDUSTRIAL'' up) \<and>
       (map_armor_type s = Inr ''INDUSTRIAL'') =
         (\<not> contains ''FERRO'' up \<and> \<not> contains ''PRIMITIVE'' up \<and>
          \<not> contains ''COMMERCIAL'' up \<and>
          \<not> (contains ''IMPACT'' up \<and> contains ''RESIST'' up) \<and>
          \<not> contains ''HEAVY'' up \<and> contains ''INDUSTRIAL'' up))"
proof (intro conjI)
  show "map_armor_type ''Heavy Ferro-Fibrous Armor'' = Inr ''HEAVY_FERRO_FIBROUS''"
    by (simp add: map_armor_type_def ARMOR_TYPE_MAP_def dict_eval str_eval)
next
  show "map_armor_type ''Heavy Ferro-Fibrous Prototype'' = Inr ''HEAVY_FERRO_FIBROUS''"
    by (simp add: map_armor_type_def ARMOR_TYPE_MAP_def dict_eval str_eval)
next
  define up where "up = upper (strip s)"
  have "\<not> dict_contains ARMOR_TYPE_MAP (strip s) \<and>
     \<not> contains ''STEALTH'' up \<and> \<not> contains ''REACTIVE'' up \<and>
     \<not> (contains ''REFLECTIVE'' up \<or> contains ''LASER-REFLECT'' up) \<and>
     \<not> contains ''HARDENED'' up
     \<longrightarrow>
       (map_armor_type s = Inr ''HEAVY_FERRO_FIBROUS'') =
         (contains ''HEAVY'' up \<and> contains ''FERRO'' up) \<and>
       (map_armor_type s = Inr ''LIGHT_FERRO_FIBROUS'') =
         (\<not> contains ''HEAVY'' up \<and> contains ''LIGHT'' up \<and> contains ''FERRO'' up) \<and>
       (map_armor_type s = Inr ''FERRO_FIBROUS_CLAN'') =
         (\<not> contains ''HEAVY'' up \<and> \<not> contains ''LIGHT'' up \<and>
          contains ''FERRO'' up \<and> contains ''CLAN'' up) \<and>
       (map_armor_type s = Inr ''FERRO_FIBROUS'') =
         (contains ''FERRO'' up \<and> \<not> contains ''HEAVY'' up \<and>
          \<not> contains ''LIGHT'' up \<and> \<not> contains ''CLAN'' up) \<and>
       (map_armor_type s = Inr ''HEAVY_INDUSTRIAL'') =
         (\<not> contains ''FERRO'' up \<and> \<not> contains ''PRIMITIVE'' up \<and>
          \<not> contains ''COMMERCIAL'' up \<and>
          \<not> (contains ''IMPACT'' up \<and> contains ''RESIST'' up) \<and>
          contains ''HEAVY'' up \<and> contains ''INDUSTRIAL'' up) \<and>
       (map_armor_type s = Inr ''INDUSTRIAL'') =
         (\<not> contains ''FERRO'' up \<and> \<not> contains ''PRIMITIVE'' up \<and>
          \<not> contains ''COMMERCIAL'' up \<and>
          \<not> (contains ''IMPACT'' up \<and> contains ''RESIST'' up) \<and>
          \<not> contains ''HEAVY'' up \<and> contains ''INDUSTRIAL'' up)"
    unfolding map_armor_type_def Let_def up_def [symmetric]
    by (cases "contains ''HEAVY'' up"; cases "contains ''FERRO'' up";
        cases "contains ''LIGHT'' up"; cases "contains ''CLAN'' up";
        cases "contains ''INDUSTRIAL'' up"; simp)
  then show "let up = upper (strip s) in
     \<not> dict_contains ARMOR_TYPE_MAP (strip s) \<and>
     \<not> contains ''STEALTH'' up \<and> \<not> contains ''REACTIVE'' up \<and>
     \<not> (contains ''REFLECTIVE'' up \<or> contains ''LASER-REFLECT'' up) \<and>
     \<not> contains ''HARDENED'' up
     \<longrightarrow>
       (map_armor_type s = Inr ''HEAVY_FERRO_FIBROUS'') =
         (contains ''HEAVY'' up \<and> contains ''FERRO'' up) \<and>
       (map_armor_type s = Inr ''LIGHT_FERRO_FIBROUS'') =
         (\<not> contains ''HEAVY'' up \<and> contains ''LIGHT'' up \<and> contains ''FERRO'' up) \<and>
       (map_armor_type s = Inr ''FERRO_FIBROUS_CLAN'') =
         (\<not> contains ''HEAVY'' up \<and> \<not> contains ''LIGHT'' up \<and>
          contains ''FERRO'' up \<and> contains ''CLAN'' up) \<and>
       (map_armor_type s = Inr ''FERRO_FIBROUS'') =
         (contains ''FERRO'' up \<and> \<not> contains ''HEAVY'' up \<and>
          \<not> contains ''LIGHT'' up \<and> \<not> contains ''CLAN'' up) \<and>
       (map_armor_type s = Inr ''HEAVY_INDUSTRIAL'') =
         (\<not> contains ''FERRO'' up \<and> \<not> contains ''PRIMITIVE'' up \<and>
          \<not> contains ''COMMERCIAL'' up \<and>
          \<not> (contains ''IMPACT'' up \<and> contains ''RESIST'' up) \<and>
          contains ''HEAVY'' up \<and> contains ''INDUSTRIAL'' up) \<and>
       (map_armor_type s = Inr ''INDUSTRIAL'') =
         (\<not> contains ''FERRO'' up \<and> \<not> contains ''PRIMITIVE'' up \<and>
          \<not> contains ''COMMERCIAL'' up \<and>
          \<not> (contains ''IMPACT'' up \<and> contains ''RESIST'' up) \<and>
          \<not> contains ''HEAVY'' up \<and> contains ''INDUSTRIAL'' up)"
    unfolding Let_def up_def .
qed

theorem armor_priority_ordering_witness:
  "\<not> dict_contains ARMOR_TYPE_MAP (strip ''Clan Light Ferro-Fibrous (Prototype)'') \<and>
   contains ''LIGHT'' (upper (strip ''Clan Light Ferro-Fibrous (Prototype)'')) \<and>
   contains ''FERRO'' (upper (strip ''Clan Light Ferro-Fibrous (Prototype)'')) \<and>
   contains ''CLAN'' (upper (strip ''Clan Light Ferro-Fibrous (Prototype)'')) \<and>
   map_armor_type ''Clan Light Ferro-Fibrous (Prototype)'' = Inr ''LIGHT_FERRO_FIBROUS'' \<and>
   map_armor_type ''Clan Light Ferro-Fibrous (Prototype)'' \<noteq> Inr ''FERRO_FIBROUS_CLAN'' \<and>
   map_armor_type ''Clan Light Ferro-Fibrous (Prototype)'' \<noteq> Inr ''FERRO_FIBROUS''"
proof -
  let ?s = "''Clan Light Ferro-Fibrous (Prototype)''"
  have h1: "\<not> dict_contains ARMOR_TYPE_MAP (strip ?s)"
    by (simp add: ARMOR_TYPE_MAP_def dict_eval str_eval)
  have up: "upper (strip ?s) = ''CLAN LIGHT FERRO-FIBROUS (PROTOTYPE)''"
    by (simp add: str_eval)
  have h2: "\<not> contains ''STEALTH'' (upper (strip ?s))" unfolding up by simp
  have h3: "\<not> contains ''REACTIVE'' (upper (strip ?s))" unfolding up by simp
  have h4: "\<not> (contains ''REFLECTIVE'' (upper (strip ?s)) \<or>
      contains ''LASER-REFLECT'' (upper (strip ?s)))" unfolding up by simp
  have h5: "\<not> contains ''HARDENED'' (upper (strip ?s))" unfolding up by simp
  have h6: "\<not> contains ''HEAVY'' (upper (strip ?s))" unfolding up by simp
  have h7: "contains ''LIGHT'' (upper (strip ?s))" unfolding up by simp
  have h8: "contains ''FERRO'' (upper (strip ?s))" unfolding up by simp
  have h9: "contains ''CLAN'' (upper (strip ?s))" unfolding up by simp
  from armor_priority_ordering [of ?s, unfolded Let_def] h1 h2 h3 h4 h5 h6 h7 h8 h9
  have "map_armor_type ?s = Inr ''LIGHT_FERRO_FIBROUS''"
    by blast
  with h1 h7 h8 h9 show ?thesis by simp
qed

section \<open>The location fallback\<close>

text \<open>
  C6, as stated: a trimmed token that is present in neither location table maps to its
  upper-cased form with underscores for spaces. The token Hd is a key of neither table,
  yet it maps to HEAD and not to HD: the second table is searched for the lower-cased
  token.
\<close>

theorem location_fallback_counterexample:
  "\<not> dict_contains MECH_LOCATION_MAP (strip ''Hd'') \<and>
   \<not> dict_contains ARMOR_LOCATION_KEY_MAP (strip ''Hd'') \<and>
   replace '' '' ''_'' (upper (strip ''Hd'')) = ''HD'' \<and>
   map_mech_location ''Hd'' = Inr ''HEAD''"
  by (simp add: map_mech_location_def MECH_LOCATION_MAP_def ARMOR_LOCATION_KEY_MAP_def
      dict_eval str_eval)

text \<open>
  C6, amended: a trimmed token that is no key of the location table and whose lower-cased
  form is no key of the armor location table maps to its upper-cased form with underscores
  for spaces, with no check that the result is a member of the location enumeration;
  Turret maps to TURRET, which is outside the enumeration. The general statement is made
  for the tokens whose capitals are characters of the model.
\<close>

theorem location_fallback:
  "(capitals_in_range (strip s) \<and>
    \<not> dict_contains MECH_LOCATION_MAP (strip s) \<and>
    \<not> dict_contains ARMOR_LOCATION_KEY_MAP (lower (strip s))
      \<longrightarrow> map_mech_location s = Inr (replace '' '' ''_'' (upper (strip s)))) \<and>
   map_mech_location ''Turret'' = Inr ''TURRET'' \<and> ''TURRET'' \<notin> set MECH_LOCATIONS"
proof (intro conjI impI)
  assume "capitals_in_range (strip s) \<and>
    \<not> dict_contains MECH_LOCATION_MAP (strip s) \<and>
    \<not> dict_contains ARMOR_LOCATION_KEY_MAP (lower (strip s))"
  then show "map_mech_location s = Inr (replace '' '' ''_'' (upper (strip s)))"
    by (simp add: map_mech_location_def Let_def)
next
  show "map_mech_location ''Turret'' = Inr ''TURRET''"
    by (simp add: map_mech_location_def MECH_LOCATION_MAP_def ARMOR_LOCATION_KEY_MAP_def
        dict_eval str_eval)
next
  show "''TURRET'' \<notin> set MECH_LOCATIONS"
    by (simp add: MECH_LOCATIONS_members)
qed

theorem location_fallback_witness:
  "capitals_in_range (strip '' Rear Gun Turret '') \<and>
   \<not> dict_contains MECH_LOCATION_MAP (strip '' Rear Gun Turret '') \<and>
   \<not> dict_contains ARMOR_LOCATION_KEY_MAP (lower (strip '' Rear Gun Turret '')) \<and>
   map_mech_location '' Rear Gun Turret '' = Inr ''REAR_GUN_TURRET''"
proof -
  let ?s = "'' Rear Gun Turret ''"
  have h0: "capitals_in_range (strip ?s)"
    by (simp add: capitals_in_range_def str_eval)
  have h1: "\<not> dict_contains MECH_LOCATION_MAP (strip ?s)"
    by (simp add: MECH_LOCATION_MAP_def dict_eval str_eval)
  have h2: "\<not> dict_contains ARMOR_LOCATION_KEY_MAP (lower (strip ?s))"
    by (simp add: ARMOR_LOCATION_KEY_MAP_def dict_eval str_eval)
  have r: "replace '' '' ''_'' (upper (strip ?s)) = ''REAR_GUN_TURRET''"
    by (simp add: str_eval)
  from location_fallback [of ?s] h0 h1 h2
  have "map_mech_location ?s = Inr (replace '' '' ''_'' (upper (strip ?s)))" by blast
  with h0 h1 h2 r show ?thesis by simp
qed

section \<open>Idempotence on canonical keys\<close>

text \<open>
  Each mapping function, applied to a canonical token of its category that is also a key
  of the category's alias table, returns that token.
\<close>

lemma key_among_canonical:
  "y \<in> set tokens \<Longrightarrow> dict_contains d y \<Longrightarrow> y \<in> set (filter (dict_contains d) tokens)"
  by simp

text \<open>
  The canonical tokens that are keys of their own alias table: ICE for the engine type,
  every token for the mech configuration and the unit type, none for the other seven.
\<close>

lemma TECH_BASES_keys: "filter (dict_contains TECH_BASE_MAP) TECH_BASES = []"
  by (simp add: enum_defs TECH_BASE_MAP_def dict_contains_def)

lemma RULES_LEVELS_keys: "filter (dict_contains RULES_LEVEL_MAP) RULES_LEVELS = []"
  by (simp add: enum_defs RULES_LEVEL_MAP_def dict_contains_def)

lemma ENGINE_TYPES_keys: "filter (dict_contains ENGINE_TYPE_MAP) ENGINE_TYPES = [''ICE'']"
  by (simp add: enum_defs ENGINE_TYPE_MAP_def dict_contains_def)

lemma GYRO_TYPES_keys: "filter (dict_contains GYRO_TYPE_MAP) GYRO_TYPES = []"
  by (simp add: enum_defs GYRO_TYPE_MAP_def dict_contains_def)

lemma COCKPIT_TYPES_keys: "filter (dict_contains COCKPIT_TYPE_MAP) COCKPIT_TYPES = []"
  by (simp add: enum_defs COCKPIT_TYPE_MAP_def dict_contains_def)

lemma STRUCTURE_TYPES_keys: "filter (dict_contains STRUCTURE_TYPE_MAP) STRUCTURE_TYPES = []"
  by (simp add: enum_defs STRUCTURE_TYPE_MAP_def dict_contains_def)

lemma ARMOR_TYPES_keys: "filter (dict_contains ARMOR_TYPE_MAP) ARMOR_TYPES = []"
  by (simp add: enum_defs ARMOR_TYPE_MAP_def dict_contains_def)

lemma HEAT_SINK_TYPES_keys: "filter (dict_contains HEAT_SINK_TYPE_MAP) HEAT_SINK_TYPES = []"
  by (simp add: enum_defs HEAT_SINK_TYPE_MAP_def dict_contains_def)

lemma MECH_CONFIGS_keys: "filter (dict_contains MECH_CONFIG_MAP) MECH_CONFIGS = MECH_CONFIGS"
  by (simp add: enum_defs MECH_CONFIG_MAP_def dict_contains_def)

lemma UNIT_TYPES_keys: "filter (dict_contains UNIT_TYPE_MAP) UNIT_TYPES = UNIT_TYPES"
  by (simp add: enum_defs UNIT_TYPE_MAP_def dict_contains_def)

lemmas canonical_tokens_that_are_keys = TECH_BASES_keys RULES_LEVELS_keys ENGINE_TYPES_keys GYRO_TYPES_keys
  COCKPIT_TYPES_keys STRUCTURE_TYPES_keys ARMOR_TYPES_keys HEAT_SINK_TYPES_keys
  MECH_CONFIGS_keys UNIT_TYPES_keys

lemma map_engine_type_ICE: "map_engine_type ''ICE'' = Inr ''ICE''"
  by (simp add: map_engine_type_def ENGINE_TYPE_MAP_def dict_eval str_eval)

lemma map_mech_config_on_canonical:
  "\<forall>y\<in>set MECH_CONFIGS. map_mech_config y = Inr y"
  by (simp add: enum_defs map_mech_config_def MECH_CONFIG_MAP_def dict_eval str_eval)

lemma map_unit_type_on_canonical:
  "\<forall>y\<in>set UNIT_TYPES. map_unit_type y = Inr y"
  by (simp add: enum_defs map_unit_type_def UNIT_TYPE_MAP_def dict_eval str_eval)

lemma map_tech_base_idempotent:
  "map_tech_base x = Inr y \<Longrightarrow> dict_contains TECH_BASE_MAP y \<Longrightarrow> map_tech_base y = Inr y"
  using map_tech_base_range [of x] key_among_canonical [of y TECH_BASES TECH_BASE_MAP] TECH_BASES_keys
  by auto

lemma map_rules_level_idempotent:
  "map_rules_level x = Inr y \<Longrightarrow> dict_contains RULES_LEVEL_MAP y \<Longrightarrow> map_rules_level y = Inr y"
  using map_rules_level_range [of x] key_among_canonical [of y RULES_LEVELS RULES_LEVEL_MAP] RULES_LEVELS_keys
  by auto

lemma map_engine_type_idempotent:
  "map_engine_type x = Inr y \<Longrightarrow> dict_contains ENGINE_TYPE_MAP y \<Longrightarrow> map_engine_type y = Inr y"
  using map_engine_type_range [of x] key_among_canonical [of y ENGINE_TYPES ENGINE_TYPE_MAP] ENGINE_TYPES_keys map_engine_type_ICE
  by auto

lemma map_gyro_type_idempotent:
  "map_gyro_type x = Inr y \<Longrightarrow> dict_contains GYRO_TYPE_MAP y \<Longrightarrow> map_gyro_type y = Inr y"
  using map_gyro_type_range [of x] key_among_canonical [of y GYRO_TYPES GYRO_TYPE_MAP] GYRO_TYPES_keys
  by auto

lemma map_cockpit_type_idempotent:
  "map_cockpit_type x = Inr y \<Longrightarrow> dict_contains COCKPIT_TYPE_MAP y \<Longrightarrow> map_cockpit_type y = Inr y"
  using map_cockpit_type_range [of x] key_among_canonical [of y COCKPIT_TYPES COCKPIT_TYPE_MAP] COCKPIT_TYPES_keys
  by auto

lemma map_structure_type_idempotent:
  "map_structure_type x = Inr y \<Longrightarrow> dict_contains STRUCTURE_TYPE_MAP y \<Longrightarrow> map_structure_type y = Inr y"
  using map_structure_type_range [of x] key_among_canonical [of y STRUCTURE_TYPES STRUCTURE_TYPE_MAP] STRUCTURE_TYPES_keys
  by auto

lemma map_armor_type_idempotent:
  "map_armor_type x = Inr y \<Longrightarrow> dict_contains ARMOR_TYPE_MAP y \<Longrightarrow> map_armor_type y = Inr y"
  using map_armor_type_range [of x] key_among_canonical [of y ARMOR_TYPES ARMOR_TYPE_MAP] ARMOR_TYPES_keys
  by auto

lemma map_heat_sink_type_idempotent:
  "map_heat_sink_type x = Inr y \<Longrightarrow> dict_contains HEAT_SINK_TYPE_MAP y \<Longrightarrow> map_heat_sink_type y = Inr y"
  using map_heat_sink_type_range [of x] key_among_canonical [of y HEAT_SINK_TYPES HEAT_SINK_TYPE_MAP] HEAT_SINK_TYPES_keys
  by auto

lemma map_mech_config_idempotent:
  "map_mech_config x = Inr y \<Longrightarrow> dict_contains MECH_CONFIG_MAP y \<Longrightarrow> map_mech_config y = Inr y"
  using map_mech_config_range [of x] key_among_canonical [of y MECH_CONFIGS MECH_CONFIG_MAP] MECH_CONFIGS_keys map_mech_config_on_canonical
  by auto

lemma map_unit_type_idempotent:
  "map_unit_type x = Inr y \<Longrightarrow> dict_contains UNIT_TYPE_MAP y \<Longrightarrow> map_unit_type y = Inr y"
  using map_unit_type_range [of x] key_among_canonical [of y UNIT_TYPES UNIT_TYPE_MAP] UNIT_TYPES_keys map_unit_type_on_canonical
  by auto

text \<open>
  C8, as stated: for every mapping function \<open>f\<close> and every input \<open>x\<close> whose result
  \<open>f x\<close> is a key of the category's alias table, \<open>f (f x) = f x\<close>. The location
  function maps ctr through its fallback to CTR, which is a key of the location table,
  and maps CTR to CENTER_TORSO_REAR.
\<close>

theorem location_idempotence_counterexample:
  "map_mech_location ''ctr'' = Inr ''CTR'' \<and> dict_contains MECH_LOCATION_MAP ''CTR'' \<and>
   map_mech_location ''CTR'' = Inr ''CENTER_TORSO_REAR'' \<and>
   map_mech_location ''CTR'' \<noteq> map_mech_location ''ctr''"
  by (simp add: map_mech_location_def MECH_LOCATION_MAP_def ARMOR_LOCATION_KEY_MAP_def
      dict_eval str_eval)

text \<open>
  C8, amended: for every mapping function \<open>f\<close> other than the location function and every
  input \<open>x\<close> whose result \<open>f x\<close> is a key of the category's alias table,
  \<open>f (f x) = f x\<close>.
\<close>

theorem canonical_key_idempotence:
  "(map_tech_base x = Inr y \<and> dict_contains TECH_BASE_MAP y \<longrightarrow> map_tech_base y = Inr y) \<and>
   (map_rules_level x = Inr y \<and> dict_contains RULES_LEVEL_MAP y \<longrightarrow> map_rules_level y = Inr y) \<and>
   (map_engine_type x = Inr y \<and> dict_contains ENGINE_TYPE_MAP y \<longrightarrow> map_engine_type y = Inr y) \<and>
   (map_gyro_type x = Inr y \<and> dict_contains GYRO_TYPE_MAP y \<longrightarrow> map_gyro_type y = Inr y) \<and>
   (map_cockpit_type x = Inr y \<and> dict_contains COCKPIT_TYPE_MAP y \<longrightarrow> map_cockpit_type y = Inr y) \<and>
   (map_structure_type x = Inr y \<and> dict_contains STRUCTURE_TYPE_MAP y
      \<longrightarrow> map_structure_type y = Inr y) \<and>
   (map_armor_type x = Inr y \<and> dict_contains ARMOR_TYPE_MAP y \<longrightarrow> map_armor_type y = Inr y) \<and>
   (map_heat_sink_type x = Inr y \<and> dict_contains HEAT_SINK_TYPE_MAP y
      \<longrightarrow> map_heat_sink_type y = Inr y) \<and>
   (map_mech_config x = Inr y \<and> dict_contains MECH_CONFIG_MAP y \<longrightarrow> map_mech_config y = Inr y) \<and>
   (map_unit_type x = Inr y \<and> dict_contains UNIT_TYPE_MAP y \<longrightarrow> map_unit_type y = Inr y)"
  using map_tech_base_idempotent map_rules_level_idempotent map_engine_type_idempotent
    map_gyro_type_idempotent map_cockpit_type_idempotent map_structure_type_idempotent
    map_armor_type_idempotent map_heat_sink_type_idempotent map_mech_config_idempotent
    map_unit_type_idempotent
  by blast

theorem canonical_key_idempotence_witness:
  "map_engine_type ''Internal Combustion Engine'' = Inr ''ICE'' \<and>
   dict_contains ENGINE_TYPE_MAP ''ICE'' \<and> map_engine_type ''ICE'' = Inr ''ICE'' \<and>
   map_mech_config ''Quad Omnimech'' = Inr ''Quad'' \<and>
   dict_contains MECH_CONFIG_MAP ''Quad'' \<and> map_mech_config ''Quad'' = Inr ''Quad'' \<and>
   map_unit_type ''Tank'' = Inr ''Vehicle'' \<and>
   dict_contains UNIT_TYPE_MAP ''Vehicle'' \<and> map_unit_type ''Vehicle'' = Inr ''Vehicle''"
proof -
  have e1: "map_engine_type ''Internal Combustion Engine'' = Inr ''ICE''"
    by (simp add: map_engine_type_def ENGINE_TYPE_MAP_def dict_eval str_eval)
  have e2: "dict_contains ENGINE_TYPE_MAP ''ICE''"
    by (simp add: ENGINE_TYPE_MAP_def dict_eval)
  have c1: "map_mech_config ''Quad Omnimech'' = Inr ''Quad''"
    by (simp add: map_mech_config_def MECH_CONFIG_MAP_def dict_eval str_eval)
  have c2: "dict_contains MECH_CONFIG_MAP ''Quad''"
    by (simp add: MECH_CONFIG_MAP_def dict_eval)
  have u1: "map_unit_type ''Tank'' = Inr ''Vehicle''"
    by (simp add: map_unit_type_def UNIT_TYPE_MAP_def dict_eval str_eval)
  have u2: "dict_contains UNIT_TYPE_MAP ''Vehicle''"
    by (simp add: UNIT_TYPE_MAP_def dict_eval)
  from canonical_key_idempotence [of "''Internal Combustion Engine''" "''ICE''"] e1 e2
  have e3: "map_engine_type ''ICE'' = Inr ''ICE''" by blast
  from canonical_key_idempotence [of "''Quad Omnimech''" "''Quad''"] c1 c2
  have c3: "map_mech_config ''Quad'' = Inr ''Quad''" by blast
  from canonical_key_idempotence [of "''Tank''" "''Vehicle''"] u1 u2
  have u3: "map_unit_type ''Vehicle'' = Inr ''Vehicle''" by blast
  from e1 e2 e3 c1 c2 c3 u1 u2 u3 show ?thesis by blast
qed

section \<open>Identifier slugs\<close>

text \<open>
  C9. The slug scenarios: the chassis Atlas with the model AS7-D gives the identifier
  atlas-as7-d, and the equipment name Gauss Rifle (Clan) gives gauss-rifle-clan.
\<close>

theorem slug_scenarios:
  "generate_id_from_name ''Atlas'' ''AS7-D'' = ''atlas-as7-d'' \<and>
   normalize_equipment_id ''Gauss Rifle (Clan)'' = ''gauss-rifle-clan''"
  by (simp add: generate_id_from_name_def normalize_equipment_id_def str_eval
      remove_double_dashes.simps)

end
